theory Spec2Isabelle
  imports Main
begin

section \<open>Python values: exceptions, slices, pandas heads and tails\<close>

text \<open>
  The engines of \<^verbatim>\<open>atklip/controls\<close> are Python objects that are mutated in place and
  whose methods may raise. A method of the model takes the object and gives an outcome:
  the object after a normal return, or the exception together with the object as the
  method left it when it raised.
\<close>

datatype py_error = IndexError | KeyError | AttributeError

datatype 'a outcome = Returned 'a | Raised py_error 'a

fun state_of :: "'a outcome \<Rightarrow> 'a" where
  "state_of (Returned s) = s"
| "state_of (Raised e s) = s"

fun returned :: "'a outcome \<Rightarrow> bool" where
  "returned (Returned s) = True"
| "returned (Raised e s) = False"

text \<open>
  \<^verbatim>\<open>DataFrame.tail(n)\<close> and \<^verbatim>\<open>DataFrame.head(n)\<close> on the rows of a table:
  \<^verbatim>\<open>tail(0)\<close> is empty, a negative \<^verbatim>\<open>n\<close> drops \<^verbatim>\<open>|n|\<close> rows from the other end.
\<close>

definition tail :: "int \<Rightarrow> 'a list \<Rightarrow> 'a list" where
  "tail n xs =
     (if n = 0 then []
      else if 0 < n then drop (length xs - nat n) xs
      else drop (nat (- n)) xs)"

definition head :: "int \<Rightarrow> 'a list \<Rightarrow> 'a list" where
  "head n xs =
     (if 0 \<le> n then take (nat n) xs
      else take (length xs - nat (- n)) xs)"

text \<open>
  A slice \<^verbatim>\<open>a[start:stop]\<close> of a one-dimensional array of \<^verbatim>\<open>n\<close> elements reads the
  positions \<^verbatim>\<open>range(lo, hi)\<close>, where an omitted bound is the end of the array, a
  negative bound counts from the end and every bound is clamped into \<^verbatim>\<open>0..n\<close>.
\<close>

definition slice_bound :: "nat \<Rightarrow> int \<Rightarrow> nat" where
  "slice_bound n i = (if i < 0 then nat (max (int n + i) 0) else min (nat i) n)"

definition slice_positions :: "nat \<Rightarrow> int option \<Rightarrow> int option \<Rightarrow> nat list" where
  "slice_positions n start stop =
     (let lo = (case start of None \<Rightarrow> 0 | Some i \<Rightarrow> slice_bound n i);
          hi = (case stop of None \<Rightarrow> n | Some j \<Rightarrow> slice_bound n j)
      in [lo..<hi])"

text \<open>Reading a list of positions; a position outside the array is an \<^verbatim>\<open>IndexError\<close>.\<close>

fun read_positions :: "'a list \<Rightarrow> nat list \<Rightarrow> py_error + 'a list" where
  "read_positions xs [] = Inr []"
| "read_positions xs (i # is) =
     (if i < length xs
      then (case read_positions xs is of Inl e \<Rightarrow> Inl e | Inr ys \<Rightarrow> Inr (xs ! i # ys))
      else Inl IndexError)"

definition py_slice :: "'a list \<Rightarrow> int option \<Rightarrow> int option \<Rightarrow> py_error + 'a list" where
  "py_slice xs start stop = read_positions xs (slice_positions (length xs) start stop)"

section \<open>The candle table\<close>

text \<open>
  One row of the candle table: the spec's \<^verbatim>\<open>(index, open, high, low, close, volume)\<close>.
  The channel values are kept abstract (\<^typ>\<open>'v\<close>); a missing value (NaN) of a computed
  column is \<^const>\<open>None\<close>.
\<close>

record 'v candle =
  index :: int
  "open" :: 'v
  high :: 'v
  low :: 'v
  close :: 'v
  volume :: 'v

text \<open>\<^verbatim>\<open>df[source]\<close>: the column of that name, a \<^verbatim>\<open>KeyError\<close> when there is none.\<close>

definition column :: "string \<Rightarrow> ('v candle \<Rightarrow> 'v) option" where
  "column name =
     (if name = ''open'' then Some open
      else if name = ''high'' then Some high
      else if name = ''low'' then Some low
      else if name = ''close'' then Some close
      else if name = ''volume'' then Some volume
      else None)"

text \<open>
  Modelled from the spec: the candle source's \<^verbatim>\<open>get_df(n)\<close> (class \<^verbatim>\<open>JAPAN_CANDLE\<close> and
  its siblings, defined outside the modules verified here). The spec gives \<^verbatim>\<open>get_table(n?)\<close>: the full
  history, or the last \<^verbatim>\<open>n\<close> rows; the engines' own \<^verbatim>\<open>get_df\<close> has the same shape
  (\<^verbatim>\<open>if not n: return self.df\<close>, else \<^verbatim>\<open>self.df.tail(n)\<close>).
\<close>

definition candles_get_df :: "'v candle list \<Rightarrow> int option \<Rightarrow> 'v candle list" where
  "candles_get_df candles n =
     (case n of None \<Rightarrow> candles
      | Some k \<Rightarrow> if k = 0 then candles else tail k candles)"

section \<open>Series and frames\<close>

text \<open>
  A pandas Series is a list of (row label, value) pairs; after \<^verbatim>\<open>reset_index(drop=True)\<close>
  the labels of a table of \<^verbatim>\<open>n\<close> rows are \<^verbatim>\<open>0..n-1\<close>.
\<close>

type_synonym 'a series = "(nat \<times> 'a) list"

definition dropna :: "('a option) series \<Rightarrow> 'a series" where
  "dropna ser = List.map_filter (\<lambda>(l, v). map_option (Pair l) v) ser"

definition round_series :: "('a \<Rightarrow> 'a) \<Rightarrow> 'a series \<Rightarrow> 'a series" where
  "round_series rnd ser = map (\<lambda>(l, v). (l, rnd v)) ser"

text \<open>
  \<^verbatim>\<open>Series.shift(k)\<close>: the labels stay, the value at position \<^verbatim>\<open>p\<close> is the old value
  at position \<^verbatim>\<open>p - k\<close>, NaN where there is none.
\<close>

definition shift :: "int \<Rightarrow> ('a option) series \<Rightarrow> ('a option) series" where
  "shift k ser =
     map (\<lambda>p. (fst (ser ! p),
               if 0 \<le> int p - k \<and> int p - k < int (length ser)
               then snd (ser ! nat (int p - k)) else None))
         [0..<length ser]"

text \<open>
  \<^verbatim>\<open>pd.DataFrame({'index': a, 'data': b})\<close> of two Series aligns them on their labels:
  one row for every label of either, in label order, NaN where a Series has no such label.
  All labels are below \<^verbatim>\<open>n\<close>. The engine reads the frame by position only
  (\<^verbatim>\<open>iloc\<close>, \<^verbatim>\<open>len\<close>, \<^verbatim>\<open>to_numpy\<close>, \<^verbatim>\<open>concat(ignore_index=True)\<close>), so a frame is kept as
  its rows, without the labels.
\<close>

definition DataFrame2 :: "nat \<Rightarrow> 'a series \<Rightarrow> 'b series \<Rightarrow> ('a option \<times> 'b option) list" where
  "DataFrame2 n a b =
     map (\<lambda>l. (map_of a l, map_of b l))
         (filter (\<lambda>l. map_of a l \<noteq> None \<or> map_of b l \<noteq> None) [0..<n])"

section \<open>The RSI calculation function\<close>

text \<open>
  Modelled from the spec: the validators \<^verbatim>\<open>v_pos_default\<close> and \<^verbatim>\<open>v_series\<close> of
  \<^verbatim>\<open>pandas_ta.utils\<close> (defined outside the modules verified here). The spec: invalid
  parameters (a period \<^verbatim>\<open>\<le> 0\<close>) are normalised to defaults; the calculation function
  returns an absent result for an input shorter than it needs.
\<close>

definition v_pos_default :: "int \<Rightarrow> int \<Rightarrow> int" where
  "v_pos_default var dflt = (if 0 < var then var else dflt)"

definition v_series :: "'a list \<Rightarrow> int \<Rightarrow> 'a list option" where
  "v_series series len = (if len \<le> int (length series) then Some series else None)"

text \<open>
  \<^verbatim>\<open>rsi\<close> (rsi.py, lines 21 to 115) as \<^verbatim>\<open>RSI.calculate\<close> calls it: no \<^verbatim>\<open>talib\<close>, no
  \<^verbatim>\<open>fillna\<close>, no signals. The moving-average formula of lines 70 to 79 is the parameter
  \<open>formula\<close>: the value it gives at each row of \<^verbatim>\<open>close\<close>, \<^const>\<open>None\<close> for NaN. The
  result carries the labels of \<^verbatim>\<open>close\<close>; \<^const>\<open>None\<close> is Python's \<^verbatim>\<open>None\<close>, returned when
  \<^verbatim>\<open>close\<close> has fewer than \<^verbatim>\<open>length + 1\<close> rows.
\<close>

type_synonym 'v rsi_formula = "'v list \<Rightarrow> int \<Rightarrow> string \<Rightarrow> int \<Rightarrow> nat \<Rightarrow> 'v option"

definition rsi ::
  "'v rsi_formula \<Rightarrow> 'v list \<Rightarrow> int \<Rightarrow> string \<Rightarrow> int \<Rightarrow> int \<Rightarrow> ('v option) series option" where
  "rsi formula close_col length_p mamode drift offset =
     (let len = v_pos_default length_p 14 in
      case v_series close_col (len + 1) of
        None \<Rightarrow> None
      | Some cl \<Rightarrow>
          let rsi0 = map (\<lambda>i. (i, formula cl len mamode drift i)) [0..<length cl]
          in Some (if offset \<noteq> 0 then shift offset rsi0 else rsi0))"

text \<open>
  A frame of an RSI engine: rows of an \<^verbatim>\<open>index\<close> cell and a \<^verbatim>\<open>data\<close> cell.
  \<^verbatim>\<open>RSI.calculate\<close> (lines 280 to 307): \<^verbatim>\<open>df[source]\<close> may raise \<^verbatim>\<open>KeyError\<close>, and
  \<^verbatim>\<open>.dropna()\<close> on the \<^verbatim>\<open>None\<close> that \<^verbatim>\<open>rsi\<close> returned raises \<^verbatim>\<open>AttributeError\<close>. The
  rounding to six digits is the parameter \<open>round6\<close>.
\<close>

type_synonym 'v rsi_frame = "(int option \<times> 'v option) list"

definition calculate ::
  "'v rsi_formula \<Rightarrow> ('v \<Rightarrow> 'v) \<Rightarrow> 'v candle list \<Rightarrow> string \<Rightarrow> int \<Rightarrow> string \<Rightarrow> int \<Rightarrow> int
     \<Rightarrow> py_error + 'v rsi_frame" where
  "calculate formula round6 df source length_p mamode drift offset =
     (case column source of
        None \<Rightarrow> Inl KeyError
      | Some col \<Rightarrow>
          (case rsi formula (map col df) length_p mamode drift offset of
             None \<Rightarrow> Inl AttributeError
           | Some ser \<Rightarrow>
               let y_data = round_series round6 (dropna ser);
                   len = length y_data;
                   idx = tail (int len) (zip [0..<length df] (map index df))
               in Inr (DataFrame2 (length df) idx y_data)))"

section \<open>The RSI engine\<close>

datatype signal =
  sig_update_candle | sig_add_candle | sig_reset_all | signal_delete | sig_add_historic nat

datatype callback =
  callback_first_gen_cb | callback_gen_historic_data_cb | callback_add_cb | callback_update_cb

text \<open>
  Modelled from the spec: \<^verbatim>\<open>HeavyProcess(fn, callback, *args).start()\<close>
  (\<^verbatim>\<open>atklip.appmanager.worker.return_worker\<close>, defined outside the modules verified here) is
  the spec's execution substrate: \<^verbatim>\<open>start\<close> returns at once, the job runs off the calling
  thread and exactly one completion callback is invoked per submitted job, with a future of
  the job's result. A started job is outstanding until its callback is invoked; the engine
  keeps the jobs it has started and that have not completed in \<open>pending\<close>.
\<close>

datatype 'v HeavyProcess =
  HeavyProcess callback "'v candle list" string int string int int

record 'v RSI =
  source :: string
  length_p :: int
  mamode :: string
  drift :: int
  offset :: int
  first_gen :: bool
  is_genering :: bool
  is_current_update :: bool
  is_histocric_load :: bool
  df :: "'v rsi_frame"
  xdata :: "int option list"
  data :: "'v option list"
  emitted :: "signal list"
  pending :: "'v HeavyProcess list"

definition emit :: "signal \<Rightarrow> 'v RSI \<Rightarrow> 'v RSI" where
  "emit sg s = s\<lparr>emitted := emitted s @ [sg]\<rparr>"

definition process_start :: "'v HeavyProcess \<Rightarrow> 'v RSI \<Rightarrow> 'v RSI" where
  "process_start process s = s\<lparr>pending := pending s @ [process]\<rparr>"

text \<open>\<^verbatim>\<open>RSI.__init__\<close> (lines 132 to 155); \<^verbatim>\<open>offset\<close> is read from the key \<^verbatim>\<open>"drift"\<close>.\<close>

definition RSI_init :: "string \<Rightarrow> int \<Rightarrow> string \<Rightarrow> int option \<Rightarrow> 'v RSI" where
  "RSI_init src len mam drift_param =
     \<lparr>source = src, length_p = len, mamode = mam,
      drift = (case drift_param of None \<Rightarrow> 1 | Some d \<Rightarrow> d),
      offset = (case drift_param of None \<Rightarrow> 0 | Some d \<Rightarrow> d),
      first_gen = False, is_genering = True, is_current_update = False,
      is_histocric_load = False, df = [], xdata = [], data = [],
      emitted = [], pending = []\<rparr>"

text \<open>\<^verbatim>\<open>RSI.get_data\<close> (lines 233 to 248).\<close>

definition get_data ::
  "'v RSI \<Rightarrow> int \<Rightarrow> int \<Rightarrow> py_error + (int option list \<times> 'v option list)" where
  "get_data s start stop =
     (if length (xdata s) = 0 then Inr ([], [])
      else
        let bounds =
              (if start = 0 \<and> stop = 0 then (None, None)
               else if start = 0 \<and> stop \<noteq> 0 then (None, Some stop)
               else if start \<noteq> 0 \<and> stop = 0 then (Some start, None)
               else (Some start, Some stop))
        in (case py_slice (xdata s) (fst bounds) (snd bounds) of
              Inl e \<Rightarrow> Inl e
            | Inr x_data \<Rightarrow>
                (case py_slice (data s) (fst bounds) (snd bounds) of
                   Inl e \<Rightarrow> Inl e
                 | Inr y_data \<Rightarrow> Inr (x_data, y_data))))"

text \<open>\<^verbatim>\<open>RSI.fisrt_gen_data\<close> (lines 309 to 318), on the candle table as it is now.\<close>

definition fisrt_gen_data :: "'v candle list \<Rightarrow> 'v RSI \<Rightarrow> 'v RSI" where
  "fisrt_gen_data candles s =
     (let s1 = s\<lparr>is_current_update := False, is_genering := True, df := []\<rparr>;
          table = candles_get_df candles None
      in process_start (HeavyProcess callback_first_gen_cb table
                  (source s1) (length_p s1) (mamode s1) (drift s1) (offset s1)) s1)"

text \<open>\<^verbatim>\<open>RSI.add_historic\<close> (lines 321 to 332).\<close>

definition add_historic :: "'v candle list \<Rightarrow> nat \<Rightarrow> 'v RSI \<Rightarrow> 'v RSI" where
  "add_historic candles n s =
     (let s1 = s\<lparr>is_genering := True, is_histocric_load := False\<rparr>;
          pre_len = length (df s1);
          candle_df = candles_get_df candles None;
          table = head (- int pre_len) candle_df
      in process_start (HeavyProcess callback_gen_historic_data_cb table
                  (source s1) (length_p s1) (mamode s1) (drift s1) (offset s1)) s1)"

text \<open>
  \<^verbatim>\<open>RSI.add\<close> (lines 334 to 346) and \<^verbatim>\<open>RSI.update\<close> (lines 348 to 360);
  \<^verbatim>\<open>new_candles[-1]\<close> raises on an empty list.
\<close>

definition add :: "'v candle list \<Rightarrow> 'v candle list \<Rightarrow> 'v RSI \<Rightarrow> 'v RSI outcome" where
  "add candles new_candles s =
     (if new_candles = [] then Raised IndexError s
      else
        let s1 = s\<lparr>is_current_update := False\<rparr>
        in if first_gen s1 = True \<and> is_genering s1 = False
           then
             let table = candles_get_df candles (Some (length_p s1 * 5))
             in Returned (process_start (HeavyProcess callback_add_cb table
                            (source s1) (length_p s1) (mamode s1) (drift s1) (offset s1)) s1)
           else Returned s1)"

definition update :: "'v candle list \<Rightarrow> 'v candle list \<Rightarrow> 'v RSI \<Rightarrow> 'v RSI outcome" where
  "update candles new_candles s =
     (if new_candles = [] then Raised IndexError s
      else
        let s1 = s\<lparr>is_current_update := False\<rparr>
        in if first_gen s1 = True \<and> is_genering s1 = False
           then
             let table = candles_get_df candles (Some (length_p s1 * 5))
             in Returned (process_start (HeavyProcess callback_update_cb table
                            (source s1) (length_p s1) (mamode s1) (drift s1) (offset s1)) s1)
           else Returned s1)"

text \<open>
  The completion callbacks. \<^verbatim>\<open>future.result()\<close> gives the frame the job computed, or
  raises the exception the job raised (\<^verbatim>\<open>concurrent.futures.Future\<close>).
  \<^verbatim>\<open>RSI.callback_first_gen\<close> (lines 362 to 370):
\<close>

definition callback_first_gen :: "py_error + 'v rsi_frame \<Rightarrow> 'v RSI \<Rightarrow> 'v RSI outcome" where
  "callback_first_gen future s =
     (case future of
        Inl e \<Rightarrow> Raised e s
      | Inr result \<Rightarrow>
          let s1 = s\<lparr>df := result\<rparr>;
              s2 = s1\<lparr>xdata := map fst (df s1), data := map snd (df s1)\<rparr>;
              s3 = s2\<lparr>is_genering := False\<rparr>;
              s4 = (if first_gen s3 = False
                    then s3\<lparr>first_gen := True, is_genering := False\<rparr> else s3)
          in Returned (emit sig_reset_all s4))"

text \<open>\<^verbatim>\<open>RSI.callback_gen_historic_data\<close> (lines 372 to 383).\<close>

definition callback_gen_historic_data ::
  "py_error + 'v rsi_frame \<Rightarrow> 'v RSI \<Rightarrow> 'v RSI outcome" where
  "callback_gen_historic_data future s =
     (case future of
        Inl e \<Rightarrow> Raised e s
      | Inr frame \<Rightarrow>
          let len = length frame;
              s1 = s\<lparr>df := frame @ df s\<rparr>;
              s2 = s1\<lparr>xdata := map fst frame @ xdata s1\<rparr>;
              s3 = s2\<lparr>data := map snd frame @ data s2\<rparr>;
              s4 = s3\<lparr>is_genering := False\<rparr>;
              s5 = (if first_gen s4 = False
                    then s4\<lparr>first_gen := True, is_genering := False\<rparr> else s4);
              s6 = s5\<lparr>is_histocric_load := True\<rparr>
          in Returned (emit (sig_add_historic len) s6))"

text \<open>
  \<^verbatim>\<open>RSI.callback_add\<close> (lines 385 to 399); \<^verbatim>\<open>.iloc[-1]\<close> raises \<^verbatim>\<open>IndexError\<close> on an empty
  column.
\<close>

definition callback_add :: "py_error + 'v rsi_frame \<Rightarrow> 'v RSI \<Rightarrow> 'v RSI outcome" where
  "callback_add future s =
     (case future of
        Inl e \<Rightarrow> Raised e s
      | Inr frame \<Rightarrow>
          if frame = [] then Raised IndexError s
          else
            let last_index = fst (last frame);
                last_data = snd (last frame);
                new_frame = [(last_index, last_data)];
                s1 = s\<lparr>df := df s @ new_frame\<rparr>;
                s2 = s1\<lparr>xdata := xdata s1 @ [last_index]\<rparr>;
                s3 = s2\<lparr>data := data s2 @ [last_data]\<rparr>
            in Returned (emit sig_add_candle s3))"

text \<open>
  \<^verbatim>\<open>RSI.callback_update\<close> (lines 401 to 409). Writing position \<^verbatim>\<open>-1\<close> of an empty frame
  or array raises \<^verbatim>\<open>IndexError\<close>; the tuple assignment of line 407 writes \<^verbatim>\<open>xdata\<close>
  first, then \<^verbatim>\<open>data\<close>.
\<close>

definition set_last :: "'a list \<Rightarrow> 'a \<Rightarrow> 'a list" where
  "set_last xs v = xs[length xs - 1 := v]"

definition callback_update :: "py_error + 'v rsi_frame \<Rightarrow> 'v RSI \<Rightarrow> 'v RSI outcome" where
  "callback_update future s =
     (case future of
        Inl e \<Rightarrow> Raised e s
      | Inr frame \<Rightarrow>
          if frame = [] then Raised IndexError s
          else
            let last_index = fst (last frame);
                last_data = snd (last frame)
            in if df s = [] then Raised IndexError s
               else
                 let s1 = s\<lparr>df := set_last (df s) (last_index, last_data)\<rparr>
                 in if xdata s1 = [] then Raised IndexError s1
                    else
                      let s2 = s1\<lparr>xdata := set_last (xdata s1) last_index\<rparr>
                      in if data s2 = [] then Raised IndexError s2
                         else
                           let s3 = s2\<lparr>data := set_last (data s2) last_data\<rparr>
                           in Returned (emit sig_update_candle s3))"

text \<open>
  A job completes: it leaves \<open>pending\<close>, \<^verbatim>\<open>calculate\<close> runs on the arguments the job was
  started with, and the job's callback is invoked with the future.
\<close>

definition invoke :: "callback \<Rightarrow> py_error + 'v rsi_frame \<Rightarrow> 'v RSI \<Rightarrow> 'v RSI outcome" where
  "invoke cb future s =
     (case cb of
        callback_first_gen_cb \<Rightarrow> callback_first_gen future s
      | callback_gen_historic_data_cb \<Rightarrow> callback_gen_historic_data future s
      | callback_add_cb \<Rightarrow> callback_add future s
      | callback_update_cb \<Rightarrow> callback_update future s)"

fun complete ::
  "'v rsi_formula \<Rightarrow> ('v \<Rightarrow> 'v) \<Rightarrow> 'v HeavyProcess \<Rightarrow> 'v RSI \<Rightarrow> 'v RSI outcome" where
  "complete formula round6 (HeavyProcess cb table src len mam dr off) s =
     invoke cb (calculate formula round6 table src len mam dr off)
       (s\<lparr>pending := remove1 (HeavyProcess cb table src len mam dr off) (pending s)\<rparr>)"

section \<open>The MACD calculation function and engine\<close>

text \<open>
  \<^verbatim>\<open>macd\<close> (macd new.py, lines 18 to 146) as the engine calls it: no \<^verbatim>\<open>talib\<close>, no
  \<^verbatim>\<open>asmode\<close>, no \<^verbatim>\<open>fillna\<close>, no signals. The moving averages of lines 70 to 76 are the
  parameter \<open>formula\<close>: the three cells (macd, histogram, signal) it gives at each row of
  \<^verbatim>\<open>close\<close>. The result is the frame of lines 104 to 109, kept as its three columns
  \<^verbatim>\<open>MACD_f_s_g\<close>, \<^verbatim>\<open>HISTOGRAMh_f_s_g\<close>, \<^verbatim>\<open>SIGNALs_f_s_g\<close>, each on the labels of \<^verbatim>\<open>close\<close>;
  \<^const>\<open>None\<close> is Python's \<^verbatim>\<open>None\<close>, returned when \<^verbatim>\<open>close\<close> has fewer than
  \<^verbatim>\<open>slow + signal - 1\<close> rows.
\<close>

type_synonym 'v macd_formula =
  "'v list \<Rightarrow> int \<Rightarrow> int \<Rightarrow> int \<Rightarrow> string \<Rightarrow> nat \<Rightarrow> 'v option \<times> 'v option \<times> 'v option"

definition macd ::
  "'v macd_formula \<Rightarrow> 'v list \<Rightarrow> int \<Rightarrow> int \<Rightarrow> int \<Rightarrow> string \<Rightarrow> int
     \<Rightarrow> (('v option) series \<times> ('v option) series \<times> ('v option) series) option" where
  "macd formula close_col fast slow signal mam off =
     (let fast0 = v_pos_default fast 12;
          slow0 = v_pos_default slow 26;
          signal1 = v_pos_default signal 9;
          fast1 = (if slow0 < fast0 then slow0 else fast0);
          slow1 = (if slow0 < fast0 then fast0 else slow0)
      in case v_series close_col (slow1 + signal1 - 1) of
           None \<Rightarrow> None
         | Some cl \<Rightarrow>
             let rows = [0..<length cl];
                 macd0 = map (\<lambda>i. (i, fst (formula cl fast1 slow1 signal1 mam i))) rows;
                 histogram0 =
                   map (\<lambda>i. (i, fst (snd (formula cl fast1 slow1 signal1 mam i)))) rows;
                 signalma0 =
                   map (\<lambda>i. (i, snd (snd (formula cl fast1 slow1 signal1 mam i)))) rows
             in if off \<noteq> 0
                then Some (shift off macd0, shift off histogram0, shift off signalma0)
                else Some (macd0, histogram0, signalma0))"

text \<open>
  A frame of a MACD engine: rows of an \<^verbatim>\<open>index\<close>, a \<^verbatim>\<open>macd\<close>, a \<^verbatim>\<open>histogram\<close> and a
  \<^verbatim>\<open>signalma\<close> cell. \<^verbatim>\<open>pd.DataFrame\<close> of four Series aligns them on their labels.
\<close>

type_synonym 'v macd_frame = "(int option \<times> 'v option \<times> 'v option \<times> 'v option) list"

definition DataFrame4 ::
  "nat \<Rightarrow> 'a series \<Rightarrow> 'b series \<Rightarrow> 'b series \<Rightarrow> 'b series
     \<Rightarrow> ('a option \<times> 'b option \<times> 'b option \<times> 'b option) list" where
  "DataFrame4 n a b c d =
     map (\<lambda>l. (map_of a l, map_of b l, map_of c l, map_of d l))
         (filter (\<lambda>l. map_of a l \<noteq> None \<or> map_of b l \<noteq> None \<or>
                       map_of c l \<noteq> None \<or> map_of d l \<noteq> None) [0..<n])"

text \<open>
  \<^verbatim>\<open>MACD.calculate\<close> (lines 320 to 352). The table is not re-labelled here, but the
  index column and the three computed columns carry the same labels, those of \<^verbatim>\<open>df\<close>, so
  the alignment is the same with the rows numbered from 0. Each of the three column names
  holds exactly one of the tags \<^verbatim>\<open>MACD\<close>, \<^verbatim>\<open>HISTOGRAM\<close>, \<^verbatim>\<open>SIGNAL\<close>, so the loop of lines
  330 to 336 finds each column. \<^verbatim>\<open>INDICATOR.columns\<close> on \<^verbatim>\<open>None\<close> raises
  \<^verbatim>\<open>AttributeError\<close>.
\<close>

definition MACD_calculate ::
  "'v macd_formula \<Rightarrow> ('v \<Rightarrow> 'v) \<Rightarrow> 'v candle list \<Rightarrow> string \<Rightarrow> int \<Rightarrow> int \<Rightarrow> int \<Rightarrow> string
     \<Rightarrow> int \<Rightarrow> py_error + 'v macd_frame" where
  "MACD_calculate formula round6 table src fast slow signal mam off =
     (case column src of
        None \<Rightarrow> Inl KeyError
      | Some col \<Rightarrow>
          (case macd formula (map col table) fast slow signal mam off of
             None \<Rightarrow> Inl AttributeError
           | Some (m, h, g) \<Rightarrow>
               let macd_data = round_series round6 (dropna m);
                   histogram = round_series round6 (dropna h);
                   signalma = round_series round6 (dropna g);
                   len = min (min (min (int (length histogram)) (int (length macd_data)))
                                  (int (length signalma)))
                             (int (length table) - slow);
                   idx = zip [0..<length table] (map index table)
               in Inr (DataFrame4 (length table) (tail len idx) (tail len macd_data)
                         (tail len histogram) (tail len signalma))))"

datatype 'v MACD_HeavyProcess =
  MACD_HeavyProcess callback "'v candle list" string int int int string int

record 'v MACD =
  source :: string
  slow_period :: int
  fast_period :: int
  signal_period :: int
  mamode :: string
  offset :: int
  first_gen :: bool
  is_genering :: bool
  is_current_update :: bool
  is_histocric_load :: bool
  df :: "'v macd_frame"
  xdata :: "int option list"
  macd_data :: "'v option list"
  histogram :: "'v option list"
  signalma :: "'v option list"
  emitted :: "signal list"
  pending :: "'v MACD_HeavyProcess list"

definition MACD_emit :: "signal \<Rightarrow> 'v MACD \<Rightarrow> 'v MACD" where
  "MACD_emit sg s = s\<lparr>MACD.emitted := MACD.emitted s @ [sg]\<rparr>"

definition MACD_process_start :: "'v MACD_HeavyProcess \<Rightarrow> 'v MACD \<Rightarrow> 'v MACD" where
  "MACD_process_start process s = s\<lparr>MACD.pending := MACD.pending s @ [process]\<rparr>"

text \<open>\<^verbatim>\<open>MACD.__init__\<close> (lines 165 to 189).\<close>

definition MACD_init ::
  "string \<Rightarrow> int \<Rightarrow> int \<Rightarrow> int \<Rightarrow> string \<Rightarrow> int option \<Rightarrow> 'v MACD" where
  "MACD_init src slow fast signal mam drift_param =
     \<lparr>MACD.source = src, slow_period = slow, fast_period = fast, signal_period = signal,
      MACD.mamode = mam,
      MACD.offset = (case drift_param of None \<Rightarrow> 0 | Some d \<Rightarrow> d),
      MACD.first_gen = False, MACD.is_genering = True, MACD.is_current_update = False,
      MACD.is_histocric_load = False, MACD.df = [], MACD.xdata = [], macd_data = [],
      histogram = [], signalma = [], MACD.emitted = [], MACD.pending = []\<rparr>"

text \<open>
  \<^verbatim>\<open>MACD.get_data\<close> (lines 262 to 277); the channels are returned in the order
  \<^verbatim>\<open>macd_data, signalma, histogram\<close>.
\<close>

definition MACD_get_data ::
  "'v MACD \<Rightarrow> int \<Rightarrow> int
     \<Rightarrow> py_error + (int option list \<times> 'v option list \<times> 'v option list \<times> 'v option list)" where
  "MACD_get_data s start stop =
     (if length (MACD.xdata s) = 0 then Inr ([], [], [], [])
      else
        let bounds =
              (if start = 0 \<and> stop = 0 then (None, None)
               else if start = 0 \<and> stop \<noteq> 0 then (None, Some stop)
               else if start \<noteq> 0 \<and> stop = 0 then (Some start, None)
               else (Some start, Some stop))
        in (case py_slice (MACD.xdata s) (fst bounds) (snd bounds) of
              Inl e \<Rightarrow> Inl e
            | Inr x_data \<Rightarrow>
                (case py_slice (macd_data s) (fst bounds) (snd bounds) of
                   Inl e \<Rightarrow> Inl e
                 | Inr m \<Rightarrow>
                     (case py_slice (signalma s) (fst bounds) (snd bounds) of
                        Inl e \<Rightarrow> Inl e
                      | Inr g \<Rightarrow>
                          (case py_slice (histogram s) (fst bounds) (snd bounds) of
                             Inl e \<Rightarrow> Inl e
                           | Inr h \<Rightarrow> Inr (x_data, m, g, h))))))"

text \<open>\<^verbatim>\<open>MACD.callback_first_gen\<close> (lines 355 to 366).\<close>

definition MACD_callback_first_gen ::
  "py_error + 'v macd_frame \<Rightarrow> 'v MACD \<Rightarrow> 'v MACD outcome" where
  "MACD_callback_first_gen future s =
     (case future of
        Inl e \<Rightarrow> Raised e s
      | Inr result \<Rightarrow>
          let s1 = s\<lparr>MACD.df := result\<rparr>;
              s2 = s1\<lparr>MACD.xdata := map fst (MACD.df s1),
                      macd_data := map (fst \<circ> snd) (MACD.df s1),
                      histogram := map (fst \<circ> snd \<circ> snd) (MACD.df s1),
                      signalma := map (snd \<circ> snd \<circ> snd) (MACD.df s1)\<rparr>;
              s3 = s2\<lparr>MACD.is_genering := False\<rparr>;
              s4 = (if MACD.first_gen s3 = False
                    then s3\<lparr>MACD.first_gen := True, MACD.is_genering := False\<rparr> else s3)
          in Returned (MACD_emit sig_reset_all s4))"

text \<open>\<^verbatim>\<open>MACD.fisrt_gen_data\<close> (lines 368 to 382).\<close>

definition MACD_fisrt_gen_data :: "'v candle list \<Rightarrow> 'v MACD \<Rightarrow> 'v MACD" where
  "MACD_fisrt_gen_data candles s =
     (let s1 = s\<lparr>MACD.is_current_update := False, MACD.is_genering := True, MACD.df := []\<rparr>;
          table = candles_get_df candles None
      in MACD_process_start
           (MACD_HeavyProcess callback_first_gen_cb table (MACD.source s1) (fast_period s1)
              (slow_period s1) (signal_period s1) (MACD.mamode s1) (MACD.offset s1)) s1)"

text \<open>\<^verbatim>\<open>MACD.callback_gen_historic_data\<close> (lines 385 to 400).\<close>

definition MACD_callback_gen_historic_data ::
  "py_error + 'v macd_frame \<Rightarrow> 'v MACD \<Rightarrow> 'v MACD outcome" where
  "MACD_callback_gen_historic_data future s =
     (case future of
        Inl e \<Rightarrow> Raised e s
      | Inr frame \<Rightarrow>
          let len = length frame;
              s1 = s\<lparr>MACD.df := frame @ MACD.df s\<rparr>;
              s2 = s1\<lparr>MACD.xdata := map fst frame @ MACD.xdata s1\<rparr>;
              s3 = s2\<lparr>macd_data := map (fst \<circ> snd) frame @ macd_data s2\<rparr>;
              s4 = s3\<lparr>histogram := map (fst \<circ> snd \<circ> snd) frame @ histogram s3\<rparr>;
              s5 = s4\<lparr>signalma := map (snd \<circ> snd \<circ> snd) frame @ signalma s4\<rparr>;
              s6 = s5\<lparr>MACD.is_genering := False\<rparr>;
              s7 = (if MACD.first_gen s6 = False
                    then s6\<lparr>MACD.first_gen := True, MACD.is_genering := False\<rparr> else s6);
              s8 = s7\<lparr>MACD.is_histocric_load := True\<rparr>
          in Returned (MACD_emit (sig_add_historic len) s8))"

text \<open>\<^verbatim>\<open>MACD.add_historic\<close> (lines 402 to 418).\<close>

definition MACD_add_historic :: "'v candle list \<Rightarrow> nat \<Rightarrow> 'v MACD \<Rightarrow> 'v MACD" where
  "MACD_add_historic candles n s =
     (let s1 = s\<lparr>MACD.is_genering := True, MACD.is_histocric_load := False\<rparr>;
          pre_len = length (MACD.df s1);
          candle_df = candles_get_df candles None;
          table = head (- int pre_len) candle_df
      in MACD_process_start
           (MACD_HeavyProcess callback_gen_historic_data_cb table (MACD.source s1)
              (fast_period s1) (slow_period s1) (signal_period s1) (MACD.mamode s1)
              (MACD.offset s1)) s1)"

text \<open>
  \<^verbatim>\<open>MACD.paire_data\<close> (lines 297 to 316) and \<^verbatim>\<open>MACD.add_update_calculate\<close> (lines 421 to
  428). \<^verbatim>\<open>df[self.source]\<close> is outside the \<^verbatim>\<open>try\<close> and may raise \<^verbatim>\<open>KeyError\<close>; the
  \<^verbatim>\<open>AttributeError\<close> of \<^verbatim>\<open>None.columns\<close> is caught and gives three empty Series.
\<close>

definition paire_data ::
  "('v \<Rightarrow> 'v) \<Rightarrow> (('v option) series \<times> ('v option) series \<times> ('v option) series) option
     \<Rightarrow> 'v series \<times> 'v series \<times> 'v series" where
  "paire_data round6 INDICATOR =
     (case INDICATOR of
        None \<Rightarrow> ([], [], [])
      | Some (m, h, g) \<Rightarrow>
          (round_series round6 (dropna m), round_series round6 (dropna h),
           round_series round6 (dropna g)))"

definition add_update_calculate ::
  "'v macd_formula \<Rightarrow> ('v \<Rightarrow> 'v) \<Rightarrow> 'v MACD \<Rightarrow> 'v candle list
     \<Rightarrow> py_error + ('v series \<times> 'v series \<times> 'v series)" where
  "add_update_calculate formula round6 s table =
     (case column (MACD.source s) of
        None \<Rightarrow> Inl KeyError
      | Some col \<Rightarrow>
          Inr (paire_data round6
                 (macd formula (map col table) (fast_period s) (slow_period s) (signal_period s)
                    (MACD.mamode s) (MACD.offset s))))"

text \<open>
  \<^verbatim>\<open>MACD.add\<close> (lines 430 to 453) computes in the handler itself. \<^verbatim>\<open>.iloc[-1]\<close> of an empty
  Series raises \<^verbatim>\<open>IndexError\<close>, before anything is written.
\<close>

definition MACD_add ::
  "'v macd_formula \<Rightarrow> ('v \<Rightarrow> 'v) \<Rightarrow> 'v candle list \<Rightarrow> 'v candle list \<Rightarrow> 'v MACD
     \<Rightarrow> 'v MACD outcome" where
  "MACD_add formula round6 candles new_candles s =
     (if new_candles = [] then Raised IndexError s
      else
        let new_candle = last new_candles;
            s1 = s\<lparr>MACD.is_current_update := False\<rparr>
        in if MACD.first_gen s1 = True \<and> MACD.is_genering s1 = False
           then
             let table = candles_get_df candles (Some (slow_period s1 * 5))
             in (case add_update_calculate formula round6 s1 table of
                   Inl e \<Rightarrow> Raised e s1
                 | Inr (m, h, g) \<Rightarrow>
                     if m = [] \<or> h = [] \<or> g = [] then Raised IndexError s1
                     else
                       let new_frame =
                             [(Some (index new_candle), Some (snd (last m)),
                               Some (snd (last h)), Some (snd (last g)))];
                           s2 = s1\<lparr>MACD.df := MACD.df s1 @ new_frame\<rparr>;
                           s3 = s2\<lparr>MACD.xdata := MACD.xdata s2 @ [Some (index new_candle)]\<rparr>;
                           s4 = s3\<lparr>macd_data := macd_data s3 @ [Some (snd (last m))]\<rparr>;
                           s5 = s4\<lparr>histogram := histogram s4 @ [Some (snd (last h))]\<rparr>;
                           s6 = s5\<lparr>signalma := signalma s5 @ [Some (snd (last g))]\<rparr>
                       in Returned (MACD_emit sig_add_candle s6))
           else Returned s1)"

text \<open>
  \<^verbatim>\<open>MACD.update\<close> (lines 455 to 466). The right-hand sides are evaluated first; then the
  last row of the frame and, one after the other, the last cell of each array is written.
\<close>

definition MACD_update ::
  "'v macd_formula \<Rightarrow> ('v \<Rightarrow> 'v) \<Rightarrow> 'v candle list \<Rightarrow> 'v candle list \<Rightarrow> 'v MACD
     \<Rightarrow> 'v MACD outcome" where
  "MACD_update formula round6 candles new_candles s =
     (if new_candles = [] then Raised IndexError s
      else
        let new_candle = last new_candles;
            s1 = s\<lparr>MACD.is_current_update := False\<rparr>
        in if MACD.first_gen s1 = True \<and> MACD.is_genering s1 = False
           then
             let table = candles_get_df candles (Some (slow_period s1 * 5))
             in (case add_update_calculate formula round6 s1 table of
                   Inl e \<Rightarrow> Raised e s1
                 | Inr (m, h, g) \<Rightarrow>
                     if m = [] \<or> h = [] \<or> g = [] then Raised IndexError s1
                     else if MACD.df s1 = [] then Raised IndexError s1
                     else
                       let s2 = s1\<lparr>MACD.df := set_last (MACD.df s1)
                                   (Some (index new_candle), Some (snd (last m)),
                                    Some (snd (last h)), Some (snd (last g)))\<rparr>
                       in if MACD.xdata s2 = [] then Raised IndexError s2
                          else
                            let s3 = s2\<lparr>MACD.xdata :=
                                          set_last (MACD.xdata s2) (Some (index new_candle))\<rparr>
                            in if macd_data s3 = [] then Raised IndexError s3
                               else
                                 let s4 = s3\<lparr>macd_data :=
                                               set_last (macd_data s3) (Some (snd (last m)))\<rparr>
                                 in if histogram s4 = [] then Raised IndexError s4
                                    else
                                      let s5 = s4\<lparr>histogram :=
                                                 set_last (histogram s4) (Some (snd (last h)))\<rparr>
                                      in if signalma s5 = [] then Raised IndexError s5
                                         else
                                           let s6 = s5\<lparr>signalma :=
                                                 set_last (signalma s5) (Some (snd (last g)))\<rparr>
                                           in Returned (MACD_emit sig_update_candle s6))
           else Returned s1)"

text \<open>
  The jobs a MACD engine starts are full regenerations and historic loads; a job completes
  as for the RSI engine.
\<close>

fun MACD_complete ::
  "'v macd_formula \<Rightarrow> ('v \<Rightarrow> 'v) \<Rightarrow> 'v MACD_HeavyProcess \<Rightarrow> 'v MACD \<Rightarrow> 'v MACD outcome" where
  "MACD_complete formula round6 (MACD_HeavyProcess cb table src fast slow sig mam off) s =
     (let future = MACD_calculate formula round6 table src fast slow sig mam off;
          s1 = s\<lparr>MACD.pending :=
                   remove1 (MACD_HeavyProcess cb table src fast slow sig mam off) (MACD.pending s)\<rparr>
      in if cb = callback_first_gen_cb then MACD_callback_first_gen future s1
         else MACD_callback_gen_historic_data future s1)"

section \<open>The KC engine: the mutate-last merge\<close>

text \<open>
  The state of a Keltner-channel engine (kc.py, lines 118 to 138) and its
  \<^verbatim>\<open>KC.callback_update\<close> (lines 405 to 414); a frame has an \<^verbatim>\<open>index\<close>, an \<^verbatim>\<open>lb\<close>, a
  \<^verbatim>\<open>cb\<close> and a \<^verbatim>\<open>ub\<close> column.
\<close>

type_synonym 'v kc_frame = "(int option \<times> 'v option \<times> 'v option \<times> 'v option) list"

record 'v KC =
  length_p :: int
  offset :: int
  first_gen :: bool
  is_genering :: bool
  is_current_update :: bool
  is_histocric_load :: bool
  df :: "'v kc_frame"
  xdata :: "int option list"
  lb :: "'v option list"
  cb :: "'v option list"
  ub :: "'v option list"
  emitted :: "signal list"

definition KC_callback_update :: "py_error + 'v kc_frame \<Rightarrow> 'v KC \<Rightarrow> 'v KC outcome" where
  "KC_callback_update future s =
     (case future of
        Inl e \<Rightarrow> Raised e s
      | Inr frame \<Rightarrow>
          if frame = [] then Raised IndexError s
          else
            let last_index = fst (last frame);
                last_lb = fst (snd (last frame));
                last_cb = fst (snd (snd (last frame)));
                last_ub = snd (snd (snd (last frame)))
            in if KC.df s = [] then Raised IndexError s
               else
                 let s1 = s\<lparr>KC.df := set_last (KC.df s) (last_index, last_lb, last_cb, last_ub)\<rparr>
                 in if KC.xdata s1 = [] then Raised IndexError s1
                    else
                      let s2 = s1\<lparr>KC.xdata := set_last (KC.xdata s1) last_index\<rparr>
                      in if lb s2 = [] then Raised IndexError s2
                         else
                           let s3 = s2\<lparr>lb := set_last (lb s2) last_lb\<rparr>
                           in if cb s3 = [] then Raised IndexError s3
                              else
                                let s4 = s3\<lparr>cb := set_last (cb s3) last_cb\<rparr>
                                in if ub s4 = [] then Raised IndexError s4
                                   else
                                     let s5 = s4\<lparr>ub := set_last (ub s4) last_ub\<rparr>
                                     in Returned (s5\<lparr>KC.emitted :=
                                                     KC.emitted s5 @ [sig_update_candle]\<rparr>))"

section \<open>The order of index cells\<close>

text \<open>
  The index array is strictly increasing when each cell is below every later one; a NaN
  cell compares false with every cell.
\<close>

fun cell_less :: "int option \<Rightarrow> int option \<Rightarrow> bool" where
  "cell_less (Some a) (Some b) = (a < b)"
| "cell_less _ _ = False"

definition strictly_increasing :: "int option list \<Rightarrow> bool" where
  "strictly_increasing xs = sorted_wrt cell_less xs"

section \<open>Events of the candle source, processed to completion\<close>

text \<open>
  \<^verbatim>\<open>connect_signals\<close> (rsi.py, lines 206 to 211) connects the four notifications of the
  candle source to \<^verbatim>\<open>started_worker\<close>, \<^verbatim>\<open>add_worker\<close>, \<^verbatim>\<open>update_worker\<close> and
  \<^verbatim>\<open>add_historic_worker\<close>, which run \<^verbatim>\<open>fisrt_gen_data\<close>, \<^verbatim>\<open>add\<close>, \<^verbatim>\<open>update\<close> and
  \<^verbatim>\<open>add_historic\<close>. The handler reads the candle table as it is when the event arrives.
  An event is processed to completion when its handler has run and every job then
  outstanding has completed, in the order the jobs were started.
\<close>

datatype 'v event =
  Reset | Append "'v candle list" | MutateLast "'v candle list" | HistoricPrepend nat

fun handle :: "'v candle list \<Rightarrow> 'v event \<Rightarrow> 'v RSI \<Rightarrow> 'v RSI outcome" where
  "handle candles Reset s = Returned (fisrt_gen_data candles s)"
| "handle candles (Append new_candles) s = add candles new_candles s"
| "handle candles (MutateLast new_candles) s = update candles new_candles s"
| "handle candles (HistoricPrepend n) s = Returned (add_historic candles n s)"

definition complete_all :: "'v rsi_formula \<Rightarrow> ('v \<Rightarrow> 'v) \<Rightarrow> 'v RSI \<Rightarrow> 'v RSI" where
  "complete_all formula round6 s =
     fold (\<lambda>job t. state_of (complete formula round6 job t)) (RSI.pending s) s"

definition process ::
  "'v rsi_formula \<Rightarrow> ('v \<Rightarrow> 'v) \<Rightarrow> 'v candle list \<Rightarrow> 'v event \<Rightarrow> 'v RSI \<Rightarrow> 'v RSI" where
  "process formula round6 candles ev s =
     complete_all formula round6 (state_of (handle candles ev s))"

text \<open>A run: each event comes with the candle table as it is when the event arrives.\<close>

definition run ::
  "'v rsi_formula \<Rightarrow> ('v \<Rightarrow> 'v) \<Rightarrow> ('v candle list \<times> 'v event) list \<Rightarrow> 'v RSI \<Rightarrow> 'v RSI" where
  "run formula round6 evs s = fold (\<lambda>(candles, ev) t. process formula round6 candles ev t) evs s"

section \<open>Concrete tables and formulas for the evaluated instances\<close>

text \<open>
  A candle whose prices all equal its index, and a formula that has a value from row
  \<^verbatim>\<open>length\<close> on, as a moving average of that warm-up has.
\<close>

definition candle_at :: "int \<Rightarrow> int candle" where
  "candle_at i = \<lparr>index = i, open = i, high = i, low = i, close = i, volume = i\<rparr>"

definition warmup_formula :: "int rsi_formula" where
  "warmup_formula cl len mam dr i = (if int i < len then None else Some (cl ! i))"

definition warmup_macd_formula :: "int macd_formula" where
  "warmup_macd_formula cl fast slow signal mam i =
     (if int i + 1 < slow then None else Some (cl ! i),
      if int i + 2 < slow + signal then None else Some (cl ! i),
      if int i + 2 < slow + signal then None else Some (cl ! i))"

definition example_table :: "int candle list" where
  "example_table = map candle_at [10, 11, 12, 13]"

definition example_rsi :: "int RSI" where
  "example_rsi = RSI_init ''close'' 2 ''rma'' None"

definition example_ready :: "int RSI" where
  "example_ready = process warmup_formula id example_table Reset example_rsi"

definition example_macd :: "int MACD" where
  "example_macd = MACD_init ''close'' 3 2 2 ''ema'' None"

definition example_macd_ready :: "int MACD" where
  "example_macd_ready =
     state_of (MACD_complete warmup_macd_formula id
       (last (MACD.pending (MACD_fisrt_gen_data example_table example_macd)))
       (MACD_fisrt_gen_data example_table example_macd))"

definition example_table_14 :: "int candle list" where
  "example_table_14 = example_table @ [candle_at 14]"


section \<open>Steps of an engine: events and job completions, interleaved\<close>

text \<open>
  A step of an engine is the arrival of an event (its handler runs) or the completion of
  a job; a job may complete at any point after it was started, so the steps may
  interleave in any order. A step that raises leaves the engine as it was when it raised.
\<close>

datatype ('v, 'j) step = Event "'v event" | Completion 'j

fun perform ::
  "'v rsi_formula \<Rightarrow> ('v \<Rightarrow> 'v) \<Rightarrow> 'v candle list \<Rightarrow> ('v, 'v HeavyProcess) step \<Rightarrow> 'v RSI
     \<Rightarrow> 'v RSI" where
  "perform formula round6 candles (Event ev) s = state_of (handle candles ev s)"
| "perform formula round6 candles (Completion job) s = state_of (complete formula round6 job s)"

fun MACD_perform ::
  "'v macd_formula \<Rightarrow> ('v \<Rightarrow> 'v) \<Rightarrow> 'v candle list \<Rightarrow> ('v, 'v MACD_HeavyProcess) step
     \<Rightarrow> 'v MACD \<Rightarrow> 'v MACD" where
  "MACD_perform formula round6 candles (Event Reset) s = MACD_fisrt_gen_data candles s"
| "MACD_perform formula round6 candles (Event (Append new_candles)) s =
     state_of (MACD_add formula round6 candles new_candles s)"
| "MACD_perform formula round6 candles (Event (MutateLast new_candles)) s =
     state_of (MACD_update formula round6 candles new_candles s)"
| "MACD_perform formula round6 candles (Event (HistoricPrepend n)) s =
     MACD_add_historic candles n s"
| "MACD_perform formula round6 candles (Completion job) s =
     state_of (MACD_complete formula round6 job s)"

text \<open>Channel length parity: every channel array is as long as the index array.\<close>

definition parity :: "'v RSI \<Rightarrow> bool" where
  "parity s = (length (RSI.data s) = length (RSI.xdata s))"

definition MACD_parity :: "'v MACD \<Rightarrow> bool" where
  "MACD_parity s =
     (length (macd_data s) = length (MACD.xdata s) \<and>
      length (histogram s) = length (MACD.xdata s) \<and>
      length (signalma s) = length (MACD.xdata s))"

section \<open>Merges that keep the index array in order\<close>

text \<open>
  What a completed job must bring for its merge to keep the index array strictly
  increasing: a full regeneration, an ordered index column; a historic load, an ordered
  index column that ends below the first index held; an append, a final index above the
  last index held; a mutate-last, a final index above the last but one index held. A job
  that raised merges nothing. The callbacks check none of this.
\<close>

definition merge_in_order :: "callback \<Rightarrow> py_error + 'v rsi_frame \<Rightarrow> 'v RSI \<Rightarrow> bool" where
  "merge_in_order c future s =
     (case future of
        Inl e \<Rightarrow> True
      | Inr frame \<Rightarrow>
          (case c of
             callback_first_gen_cb \<Rightarrow> strictly_increasing (map fst frame)
           | callback_gen_historic_data_cb \<Rightarrow>
               strictly_increasing (map fst frame) \<and>
               (frame = [] \<or> RSI.xdata s = [] \<or>
                cell_less (fst (last frame)) (hd (RSI.xdata s)))
           | callback_add_cb \<Rightarrow>
               frame = [] \<or> RSI.xdata s = [] \<or>
               cell_less (last (RSI.xdata s)) (fst (last frame))
           | callback_update_cb \<Rightarrow>
               frame = [] \<or> butlast (RSI.xdata s) = [] \<or>
               cell_less (last (butlast (RSI.xdata s))) (fst (last frame))))"

fun merges_in_order :: "(callback \<times> (py_error + 'v rsi_frame)) list \<Rightarrow> 'v RSI \<Rightarrow> bool" where
  "merges_in_order [] s = True"
| "merges_in_order ((c, future) # rest) s =
     (merge_in_order c future s \<and> merges_in_order rest (state_of (invoke c future s)))"

definition merge_all :: "(callback \<times> (py_error + 'v rsi_frame)) list \<Rightarrow> 'v RSI \<Rightarrow> 'v RSI" where
  "merge_all jobs s = fold (\<lambda>(c, future) t. state_of (invoke c future t)) jobs s"

section \<open>Genuine events and a calculation with a fixed warm-up\<close>









section \<open>Properties of the RSI engine\<close>

text \<open>
  C2. Full-regeneration completion: when the future handed to \<^verbatim>\<open>callback_first_gen\<close> holds a
  computed frame, the callback returns normally; the frame becomes the engine's table and
  its two columns become \<^verbatim>\<open>xdata\<close> and \<^verbatim>\<open>data\<close> in their entirety (so the series has
  exactly the length of the fresh result and nothing of the previous series is left),
  \<^verbatim>\<open>first_gen\<close> is true, \<^verbatim>\<open>is_genering\<close> is false, and exactly one \<^verbatim>\<open>sig_reset_all\<close> is
  emitted.
\<close>

theorem callback_first_gen_replaces_series:
  "returned (callback_first_gen (Inr result) s) \<and>
   RSI.df (state_of (callback_first_gen (Inr result) s)) = result \<and>
   RSI.xdata (state_of (callback_first_gen (Inr result) s)) = map fst result \<and>
   RSI.data (state_of (callback_first_gen (Inr result) s)) = map snd result \<and>
   length (RSI.xdata (state_of (callback_first_gen (Inr result) s))) = length result \<and>
   length (RSI.data (state_of (callback_first_gen (Inr result) s))) = length result \<and>
   RSI.first_gen (state_of (callback_first_gen (Inr result) s)) \<and>
   \<not> RSI.is_genering (state_of (callback_first_gen (Inr result) s)) \<and>
   RSI.emitted (state_of (callback_first_gen (Inr result) s)) = RSI.emitted s @ [sig_reset_all]"
  by (simp add: callback_first_gen_def emit_def Let_def)

section \<open>Slices and queries\<close>

lemma slice_bound_le: "slice_bound n i \<le> n"
  by (auto simp: slice_bound_def)

lemma slice_positions_bound: "p \<in> set (slice_positions n start stop) \<Longrightarrow> p < n"
  by (auto simp: slice_positions_def Let_def split: option.splits
      intro: order.strict_trans2 [OF _ slice_bound_le])

lemma slice_positions_length: "length (slice_positions n start stop) \<le> n"
proof -
  have "hi \<le> n \<Longrightarrow> length [lo..<hi] \<le> n" for lo hi :: nat
    by simp
  then show ?thesis
    by (auto simp: slice_positions_def Let_def slice_bound_le split: option.splits)
qed

lemma read_positions_in_range:
  "(\<And>p. p \<in> set ps \<Longrightarrow> p < length xs) \<Longrightarrow> read_positions xs ps = Inr (map ((!) xs) ps)"
  by (induction ps) auto

lemma py_slice_total:
  "py_slice xs start stop = Inr (map ((!) xs) (slice_positions (length xs) start stop))"
  unfolding py_slice_def by (rule read_positions_in_range) (rule slice_positions_bound)

text \<open>
  C10. Query totality: on an engine whose \<^verbatim>\<open>xdata\<close> is empty, \<^verbatim>\<open>get_data\<close> returns one
  empty list per channel for all integers \<^verbatim>\<open>start\<close> and \<^verbatim>\<open>stop\<close>; on any engine and for
  all \<^verbatim>\<open>start\<close> and \<^verbatim>\<open>stop\<close> it returns without an \<^verbatim>\<open>IndexError\<close>, every slice reading
  positions inside its own array only. This holds for the one-channel RSI engine and for
  the three-channel MACD engine.
\<close>

theorem get_data_total:
  "(RSI.xdata s = [] \<longrightarrow> get_data s start stop = Inr ([], [])) \<and>
   (\<exists>x_data y_data. get_data s start stop = Inr (x_data, y_data) \<and>
       length x_data \<le> length (RSI.xdata s) \<and> length y_data \<le> length (RSI.data s)) \<and>
   (MACD.xdata m = [] \<longrightarrow> MACD_get_data m start stop = Inr ([], [], [], [])) \<and>
   (\<exists>x_data a b c. MACD_get_data m start stop = Inr (x_data, a, b, c) \<and>
       length x_data \<le> length (MACD.xdata m) \<and> length a \<le> length (macd_data m) \<and>
       length b \<le> length (signalma m) \<and> length c \<le> length (histogram m))"
  by (simp add: get_data_def MACD_get_data_def py_slice_total Let_def slice_positions_length)

theorem get_data_total_witness:
  "RSI.xdata (RSI_init ''close'' 14 ''rma'' None :: int RSI) = [] \<and>
   get_data (RSI_init ''close'' 14 ''rma'' None :: int RSI) 3 (- 7) = Inr ([], []) \<and>
   MACD.xdata (MACD_init ''close'' 26 12 9 ''ema'' None :: int MACD) = [] \<and>
   MACD_get_data (MACD_init ''close'' 26 12 9 ''ema'' None :: int MACD) 3 (- 7)
     = Inr ([], [], [], [])"
  using get_data_total [of "RSI_init ''close'' 14 ''rma'' None :: int RSI" 3 "- 7"
      "MACD_init ''close'' 26 12 9 ''ema'' None :: int MACD"]
  by (simp add: RSI_init_def MACD_init_def)

section \<open>The merges\<close>

lemma length_set_last: "length (set_last xs v) = length xs"
  by (simp add: set_last_def)

lemma butlast_set_last: "butlast (set_last xs v) = butlast xs"
  by (simp add: set_last_def butlast_list_update)

lemma last_set_last: "xs \<noteq> [] \<Longrightarrow> last (set_last xs v) = v"
  by (simp add: set_last_def last_list_update)

lemma set_last_eq_Nil: "set_last xs v = [] \<longleftrightarrow> xs = []"
  by (simp add: set_last_def)

lemma callback_update_frame:
  "length (RSI.xdata (state_of (callback_update future s))) = length (RSI.xdata s) \<and>
   length (RSI.data (state_of (callback_update future s))) = length (RSI.data s) \<and>
   length (RSI.df (state_of (callback_update future s))) = length (RSI.df s) \<and>
   butlast (RSI.xdata (state_of (callback_update future s))) = butlast (RSI.xdata s) \<and>
   butlast (RSI.data (state_of (callback_update future s))) = butlast (RSI.data s) \<and>
   butlast (RSI.df (state_of (callback_update future s))) = butlast (RSI.df s)"
  by (simp add: callback_update_def emit_def Let_def length_set_last butlast_set_last
      split: sum.split)

lemma callback_update_last:
  assumes "frame \<noteq> []" "RSI.df s \<noteq> []" "RSI.xdata s \<noteq> []" "RSI.data s \<noteq> []"
  shows "returned (callback_update (Inr frame) s) \<and>
    last (RSI.xdata (state_of (callback_update (Inr frame) s))) = fst (last frame) \<and>
    last (RSI.data (state_of (callback_update (Inr frame) s))) = snd (last frame) \<and>
    last (RSI.df (state_of (callback_update (Inr frame) s))) = last frame \<and>
    RSI.emitted (state_of (callback_update (Inr frame) s)) = RSI.emitted s @ [sig_update_candle]"
  using assms
  by (simp add: callback_update_def emit_def Let_def last_set_last set_last_eq_Nil)

lemma KC_callback_update_frame:
  "length (KC.xdata (state_of (KC_callback_update future k))) = length (KC.xdata k) \<and>
   length (lb (state_of (KC_callback_update future k))) = length (lb k) \<and>
   length (cb (state_of (KC_callback_update future k))) = length (cb k) \<and>
   length (ub (state_of (KC_callback_update future k))) = length (ub k) \<and>
   butlast (KC.xdata (state_of (KC_callback_update future k))) = butlast (KC.xdata k) \<and>
   butlast (lb (state_of (KC_callback_update future k))) = butlast (lb k) \<and>
   butlast (cb (state_of (KC_callback_update future k))) = butlast (cb k) \<and>
   butlast (ub (state_of (KC_callback_update future k))) = butlast (ub k)"
  by (simp add: KC_callback_update_def Let_def length_set_last butlast_set_last
      split: sum.split)

lemma KC_callback_update_last:
  assumes "frame \<noteq> []" "KC.df k \<noteq> []" "KC.xdata k \<noteq> []" "lb k \<noteq> []" "cb k \<noteq> []"
    "ub k \<noteq> []"
  shows "returned (KC_callback_update (Inr frame) k) \<and>
    last (KC.xdata (state_of (KC_callback_update (Inr frame) k))) = fst (last frame) \<and>
    last (lb (state_of (KC_callback_update (Inr frame) k))) = fst (snd (last frame)) \<and>
    last (cb (state_of (KC_callback_update (Inr frame) k))) = fst (snd (snd (last frame))) \<and>
    last (ub (state_of (KC_callback_update (Inr frame) k))) = snd (snd (snd (last frame))) \<and>
    KC.emitted (state_of (KC_callback_update (Inr frame) k))
      = KC.emitted k @ [sig_update_candle]"
  using assms
  by (simp add: KC_callback_update_def Let_def last_set_last set_last_eq_Nil)

text \<open>
  C4. Mutate-last merge: whatever the future holds, \<^verbatim>\<open>callback_update\<close> leaves the length
  of every array of the series unchanged and leaves every element but the last unchanged;
  when the computed frame and the held arrays are non-empty it returns normally, the last
  element of every array is the corresponding cell of the last row of the frame, and
  \<^verbatim>\<open>sig_update_candle\<close> is emitted once. This holds for the RSI engine and for the
  three-channel KC engine.
\<close>

theorem callback_update_overwrites_last_row_only:
  "(length (RSI.xdata (state_of (callback_update future s))) = length (RSI.xdata s) \<and>
    length (RSI.data (state_of (callback_update future s))) = length (RSI.data s) \<and>
    butlast (RSI.xdata (state_of (callback_update future s))) = butlast (RSI.xdata s) \<and>
    butlast (RSI.data (state_of (callback_update future s))) = butlast (RSI.data s)) \<and>
   (frame \<noteq> [] \<and> RSI.df s \<noteq> [] \<and> RSI.xdata s \<noteq> [] \<and> RSI.data s \<noteq> [] \<longrightarrow>
      returned (callback_update (Inr frame) s) \<and>
      last (RSI.xdata (state_of (callback_update (Inr frame) s))) = fst (last frame) \<and>
      last (RSI.data (state_of (callback_update (Inr frame) s))) = snd (last frame) \<and>
      RSI.emitted (state_of (callback_update (Inr frame) s))
        = RSI.emitted s @ [sig_update_candle]) \<and>
   (length (KC.xdata (state_of (KC_callback_update kfuture k))) = length (KC.xdata k) \<and>
    length (lb (state_of (KC_callback_update kfuture k))) = length (lb k) \<and>
    length (cb (state_of (KC_callback_update kfuture k))) = length (cb k) \<and>
    length (ub (state_of (KC_callback_update kfuture k))) = length (ub k) \<and>
    butlast (KC.xdata (state_of (KC_callback_update kfuture k))) = butlast (KC.xdata k) \<and>
    butlast (lb (state_of (KC_callback_update kfuture k))) = butlast (lb k) \<and>
    butlast (cb (state_of (KC_callback_update kfuture k))) = butlast (cb k) \<and>
    butlast (ub (state_of (KC_callback_update kfuture k))) = butlast (ub k)) \<and>
   (kframe \<noteq> [] \<and> KC.df k \<noteq> [] \<and> KC.xdata k \<noteq> [] \<and> lb k \<noteq> [] \<and> cb k \<noteq> [] \<and>
    ub k \<noteq> [] \<longrightarrow>
      returned (KC_callback_update (Inr kframe) k) \<and>
      last (KC.xdata (state_of (KC_callback_update (Inr kframe) k))) = fst (last kframe) \<and>
      last (lb (state_of (KC_callback_update (Inr kframe) k))) = fst (snd (last kframe)) \<and>
      last (cb (state_of (KC_callback_update (Inr kframe) k)))
        = fst (snd (snd (last kframe))) \<and>
      last (ub (state_of (KC_callback_update (Inr kframe) k)))
        = snd (snd (snd (last kframe))) \<and>
      KC.emitted (state_of (KC_callback_update (Inr kframe) k))
        = KC.emitted k @ [sig_update_candle])"
  using callback_update_frame [of future s] callback_update_last [of frame s]
    KC_callback_update_frame [of kfuture k] KC_callback_update_last [of kframe k]
  by blast

theorem callback_update_overwrites_last_row_only_witness:
  "[(Some 2, Some 9)] \<noteq> ([] :: int rsi_frame) \<and>
   RSI.xdata (state_of (callback_update (Inr [(Some 2, Some 9)])
     ((RSI_init ''close'' 14 ''rma'' None :: int RSI)
        \<lparr>RSI.df := [(Some 1, Some 5), (Some 2, Some 6)], RSI.xdata := [Some 1, Some 2],
         RSI.data := [Some 5, Some 6]\<rparr>))) = [Some 1, Some 2] \<and>
   RSI.data (state_of (callback_update (Inr [(Some 2, Some 9)])
     ((RSI_init ''close'' 14 ''rma'' None :: int RSI)
        \<lparr>RSI.df := [(Some 1, Some 5), (Some 2, Some 6)], RSI.xdata := [Some 1, Some 2],
         RSI.data := [Some 5, Some 6]\<rparr>))) = [Some 5, Some 9] \<and>
   [(Some 2, Some 7, Some 8, Some 9)] \<noteq> ([] :: int kc_frame) \<and>
   ub (state_of (KC_callback_update (Inr [(Some 2, Some 7, Some 8, Some 9)])
     \<lparr>KC.length_p = 20, KC.offset = 0, KC.first_gen = True, KC.is_genering = False,
      KC.is_current_update = False, KC.is_histocric_load = False,
      KC.df = [(Some 1, Some 3, Some 4, Some 5), (Some 2, Some 4, Some 5, Some 6)],
      KC.xdata = [Some 1, Some 2], lb = [Some 3, Some 4], cb = [Some 4, Some 5],
      ub = [Some 5, Some (6 :: int)], KC.emitted = []\<rparr>)) = [Some 5, Some 9]"
  using callback_update_overwrites_last_row_only
    [of "Inr [(Some 2, Some 9)]"
        "(RSI_init ''close'' 14 ''rma'' None :: int RSI)
           \<lparr>RSI.df := [(Some 1, Some 5), (Some 2, Some 6)], RSI.xdata := [Some 1, Some 2],
            RSI.data := [Some 5, Some 6]\<rparr>"
        "[(Some 2, Some 9)]"
        "Inr [(Some 2, Some 7, Some 8, Some 9)]"
        "\<lparr>KC.length_p = 20, KC.offset = 0, KC.first_gen = True, KC.is_genering = False,
          KC.is_current_update = False, KC.is_histocric_load = False,
          KC.df = [(Some 1, Some 3, Some 4, Some 5), (Some 2, Some 4, Some 5, Some 6)],
          KC.xdata = [Some 1, Some 2], lb = [Some 3, Some 4], cb = [Some 4, Some 5],
          ub = [Some 5, Some (6 :: int)], KC.emitted = []\<rparr>"
        "[(Some 2, Some 7, Some 8, Some 9)]"]
  by (simp add: RSI_init_def callback_update_def KC_callback_update_def set_last_def emit_def
      Let_def)



section \<open>The append merge\<close>

lemma DataFrame2_last:
  assumes "0 < n" "map_of a (n - 1) = Some v"
  shows "DataFrame2 n a b \<noteq> [] \<and> fst (last (DataFrame2 n a b)) = Some v"
proof -
  have "[0..<n] = [0..<n - 1] @ [n - 1]"
    using assms(1) by (metis Suc_pred' upt_Suc_append zero_le)
  then show ?thesis
    using assms(2) by (simp add: DataFrame2_def)
qed

lemma map_of_tail_zip_last:
  assumes "0 < len" "length xs = n" "0 < n"
  shows "map_of (tail len (zip [0..<n] xs)) (n - 1) = Some (last xs)"
proof -
  define k where "k = n - nat len"
  have k: "k < n" using assms by (simp add: k_def)
  have "tail len (zip [0..<n] xs) = zip [k..<n] (drop k xs)"
    using assms by (simp add: tail_def k_def drop_zip)
  moreover have "map_of (zip [k..<n] (drop k xs)) ([k..<n] ! (n - 1 - k)) = Some (drop k xs ! (n - 1 - k))"
    using k assms by (intro map_of_zip_nth) auto
  moreover have "[k..<n] ! (n - 1 - k) = n - 1" using k by simp
  moreover have "drop k xs ! (n - 1 - k) = last xs"
  proof -
    have "xs \<noteq> []" using assms by auto
    then show ?thesis using k assms by (simp add: last_conv_nth)
  qed
  ultimately show ?thesis by simp
qed

lemma last_candles_get_df:
  "candles_get_df candles n \<noteq> [] \<Longrightarrow> last (candles_get_df candles n) = last candles"
  by (auto simp: candles_get_df_def tail_def split: option.splits if_splits)

lemma calculate_last_index:
  assumes "calculate formula round6 table src len mam dr off = Inr frame" "frame \<noteq> []"
  shows "table \<noteq> [] \<and> fst (last frame) = Some (index (last table))"
proof -
  obtain col ser where col: "column src = Some col"
    and ser: "rsi formula (map col table) len mam dr off = Some ser"
    using assms(1) by (auto simp: calculate_def split: option.splits)
  define y where "y = round_series round6 (dropna ser)"
  define idx where "idx = tail (int (length y)) (zip [0..<length table] (map index table))"
  have frame: "frame = DataFrame2 (length table) idx y"
    using assms(1) col ser by (simp add: calculate_def y_def idx_def Let_def)
  have n: "0 < length table"
    using assms(2) frame by (auto simp: DataFrame2_def)
  have "y \<noteq> []"
  proof
    assume "y = []"
    then have "idx = []" by (simp add: idx_def tail_def)
    with \<open>y = []\<close> frame assms(2) show False by (simp add: DataFrame2_def)
  qed
  then have "0 < int (length y)" by simp
  then have "map_of idx (length table - 1) = Some (last (map index table))"
    unfolding idx_def using n by (intro map_of_tail_zip_last) auto
  then have "fst (last frame) = Some (last (map index table))"
    using DataFrame2_last [OF n, of idx "last (map index table)" y] frame by simp
  moreover have "table \<noteq> []" using n by auto
  ultimately show ?thesis by (simp add: last_map)
qed


lemma process_append_ready:
  assumes ready: "RSI.first_gen s" "\<not> RSI.is_genering s" "RSI.pending s = []"
    and nc: "new_candles \<noteq> []"
    and calc: "calculate formula round6 (candles_get_df candles (Some (RSI.length_p s * 5)))
        (RSI.source s) (RSI.length_p s) (RSI.mamode s) (RSI.drift s) (RSI.offset s) = Inr frame"
    and frame: "frame \<noteq> []"
  shows "RSI.xdata (process formula round6 candles (Append new_candles) s)
      = RSI.xdata s @ [Some (index (last candles))] \<and>
    RSI.data (process formula round6 candles (Append new_candles) s)
      = RSI.data s @ [snd (last frame)] \<and>
    RSI.df (process formula round6 candles (Append new_candles) s)
      = RSI.df s @ [last frame] \<and>
    RSI.emitted (process formula round6 candles (Append new_candles) s)
      = RSI.emitted s @ [sig_add_candle] \<and>
    RSI.pending (process formula round6 candles (Append new_candles) s) = []"
proof -
  have tbl: "candles_get_df candles (Some (RSI.length_p s * 5)) \<noteq> []"
    and li: "fst (last frame) = Some (index (last (candles_get_df candles (Some (RSI.length_p s * 5)))))"
    using calculate_last_index [OF calc frame] by simp_all
  have li': "fst (last frame) = Some (index (last candles))"
    using li last_candles_get_df [OF tbl] by simp
  have "(fst (last frame), snd (last frame)) = last frame"
    by simp
  with li' have pair: "(Some (index (last candles)), snd (last frame)) = last frame"
    by simp
  show ?thesis
    using ready nc calc frame li' pair
    by (simp add: process_def complete_all_def add_def process_start_def invoke_def
        callback_add_def emit_def Let_def)
qed


lemma MACD_add_ready:
  assumes ready: "MACD.first_gen m" "\<not> MACD.is_genering m"
    and nc: "new_candles \<noteq> []"
    and calc: "add_update_calculate formula round6 m
        (candles_get_df candles (Some (slow_period m * 5))) = Inr (a, h, g)"
    and ne: "a \<noteq> []" "h \<noteq> []" "g \<noteq> []"
  shows "returned (MACD_add formula round6 candles new_candles m) \<and>
    MACD.xdata (state_of (MACD_add formula round6 candles new_candles m))
      = MACD.xdata m @ [Some (index (last new_candles))] \<and>
    macd_data (state_of (MACD_add formula round6 candles new_candles m))
      = macd_data m @ [Some (snd (last a))] \<and>
    histogram (state_of (MACD_add formula round6 candles new_candles m))
      = histogram m @ [Some (snd (last h))] \<and>
    signalma (state_of (MACD_add formula round6 candles new_candles m))
      = signalma m @ [Some (snd (last g))] \<and>
    MACD.emitted (state_of (MACD_add formula round6 candles new_candles m))
      = MACD.emitted m @ [sig_add_candle]"
proof -
  have "add_update_calculate formula round6 (m\<lparr>MACD.is_current_update := False\<rparr>)
      (candles_get_df candles (Some (slow_period m * 5))) = Inr (a, h, g)"
    using calc by (simp add: add_update_calculate_def cong: option.case_cong)
  then show ?thesis
    using ready nc ne by (simp add: MACD_add_def MACD_emit_def Let_def)
qed

lemma w1: "RSI.first_gen example_ready \<and> \<not> RSI.is_genering example_ready \<and> RSI.pending example_ready = []"
  by code_simp

lemma w2: "calculate warmup_formula id
      (candles_get_df (example_table @ [candle_at 14]) (Some (RSI.length_p example_ready * 5)))
      (RSI.source example_ready) (RSI.length_p example_ready) (RSI.mamode example_ready)
      (RSI.drift example_ready) (RSI.offset example_ready)
     = Inr [(Some 12, Some 12), (Some 13, Some 13), (Some 14, Some 14)]"
  by code_simp

text \<open>
  C3. Append merge: an RSI engine that is ready (a full generation has completed, none is
  in flight, no job is outstanding) receives an append event; the candle table ends with
  the new candle and the trailing-window job computes a non-empty frame. Processed to
  completion, the event appends the final row of that frame, and nothing else, to the
  series: every array grows by exactly one element, the new last index is the index of
  the new candle, and \<^verbatim>\<open>sig_add_candle\<close> is emitted exactly once. The MACD engine, which
  computes in \<^verbatim>\<open>add\<close> itself, does the same whenever its calculation gives three
  non-empty channels.
\<close>

theorem append_merge:
  "(RSI.first_gen s \<and> \<not> RSI.is_genering s \<and> RSI.pending s = [] \<and> new_candles \<noteq> [] \<and>
    last candles = last new_candles \<and>
    calculate formula round6 (candles_get_df candles (Some (RSI.length_p s * 5)))
      (RSI.source s) (RSI.length_p s) (RSI.mamode s) (RSI.drift s) (RSI.offset s) = Inr frame \<and>
    frame \<noteq> [] \<longrightarrow>
      RSI.xdata (process formula round6 candles (Append new_candles) s)
        = RSI.xdata s @ [Some (index (last new_candles))] \<and>
      RSI.data (process formula round6 candles (Append new_candles) s)
        = RSI.data s @ [snd (last frame)] \<and>
      RSI.df (process formula round6 candles (Append new_candles) s)
        = RSI.df s @ [last frame] \<and>
      length (RSI.xdata (process formula round6 candles (Append new_candles) s))
        = length (RSI.xdata s) + 1 \<and>
      length (RSI.data (process formula round6 candles (Append new_candles) s))
        = length (RSI.data s) + 1 \<and>
      last (RSI.xdata (process formula round6 candles (Append new_candles) s))
        = Some (index (last new_candles)) \<and>
      RSI.emitted (process formula round6 candles (Append new_candles) s)
        = RSI.emitted s @ [sig_add_candle]) \<and>
   (MACD.first_gen m \<and> \<not> MACD.is_genering m \<and> new_candles \<noteq> [] \<and>
    add_update_calculate mformula round6 m
      (candles_get_df candles (Some (slow_period m * 5))) = Inr (a, h, g) \<and>
    a \<noteq> [] \<and> h \<noteq> [] \<and> g \<noteq> [] \<longrightarrow>
      returned (MACD_add mformula round6 candles new_candles m) \<and>
      MACD.xdata (state_of (MACD_add mformula round6 candles new_candles m))
        = MACD.xdata m @ [Some (index (last new_candles))] \<and>
      macd_data (state_of (MACD_add mformula round6 candles new_candles m))
        = macd_data m @ [Some (snd (last a))] \<and>
      histogram (state_of (MACD_add mformula round6 candles new_candles m))
        = histogram m @ [Some (snd (last h))] \<and>
      signalma (state_of (MACD_add mformula round6 candles new_candles m))
        = signalma m @ [Some (snd (last g))] \<and>
      MACD.emitted (state_of (MACD_add mformula round6 candles new_candles m))
        = MACD.emitted m @ [sig_add_candle])"
proof (intro conjI impI)
  assume rsi: "RSI.first_gen s \<and> \<not> RSI.is_genering s \<and> RSI.pending s = [] \<and>
    new_candles \<noteq> [] \<and> last candles = last new_candles \<and>
    calculate formula round6 (candles_get_df candles (Some (RSI.length_p s * 5)))
      (RSI.source s) (RSI.length_p s) (RSI.mamode s) (RSI.drift s) (RSI.offset s) = Inr frame \<and>
    frame \<noteq> []"
  then have flow:
    "RSI.xdata (process formula round6 candles (Append new_candles) s)
       = RSI.xdata s @ [Some (index (last new_candles))]"
    "RSI.data (process formula round6 candles (Append new_candles) s)
       = RSI.data s @ [snd (last frame)]"
    "RSI.df (process formula round6 candles (Append new_candles) s) = RSI.df s @ [last frame]"
    "RSI.emitted (process formula round6 candles (Append new_candles) s)
       = RSI.emitted s @ [sig_add_candle]"
    using process_append_ready [of s new_candles formula round6 candles frame] by simp_all
  show "RSI.xdata (process formula round6 candles (Append new_candles) s)
      = RSI.xdata s @ [Some (index (last new_candles))]"
    by (rule flow)
  show "RSI.data (process formula round6 candles (Append new_candles) s)
      = RSI.data s @ [snd (last frame)]"
    by (rule flow)
  show "RSI.df (process formula round6 candles (Append new_candles) s)
      = RSI.df s @ [last frame]"
    by (rule flow)
  show "length (RSI.xdata (process formula round6 candles (Append new_candles) s))
      = length (RSI.xdata s) + 1"
    by (simp add: flow)
  show "length (RSI.data (process formula round6 candles (Append new_candles) s))
      = length (RSI.data s) + 1"
    by (simp add: flow)
  show "last (RSI.xdata (process formula round6 candles (Append new_candles) s))
      = Some (index (last new_candles))"
    by (simp add: flow)
  show "RSI.emitted (process formula round6 candles (Append new_candles) s)
      = RSI.emitted s @ [sig_add_candle]"
    by (rule flow)
next
  assume "MACD.first_gen m \<and> \<not> MACD.is_genering m \<and> new_candles \<noteq> [] \<and>
    add_update_calculate mformula round6 m
      (candles_get_df candles (Some (slow_period m * 5))) = Inr (a, h, g) \<and>
    a \<noteq> [] \<and> h \<noteq> [] \<and> g \<noteq> []"
  then have all: "returned (MACD_add mformula round6 candles new_candles m) \<and>
      MACD.xdata (state_of (MACD_add mformula round6 candles new_candles m))
        = MACD.xdata m @ [Some (index (last new_candles))] \<and>
      macd_data (state_of (MACD_add mformula round6 candles new_candles m))
        = macd_data m @ [Some (snd (last a))] \<and>
      histogram (state_of (MACD_add mformula round6 candles new_candles m))
        = histogram m @ [Some (snd (last h))] \<and>
      signalma (state_of (MACD_add mformula round6 candles new_candles m))
        = signalma m @ [Some (snd (last g))] \<and>
      MACD.emitted (state_of (MACD_add mformula round6 candles new_candles m))
        = MACD.emitted m @ [sig_add_candle]"
    using MACD_add_ready [of m new_candles mformula round6 candles a h g] by simp
  show "returned (MACD_add mformula round6 candles new_candles m)"
    using all by simp
  show "MACD.xdata (state_of (MACD_add mformula round6 candles new_candles m))
      = MACD.xdata m @ [Some (index (last new_candles))]"
    using all by simp
  show "macd_data (state_of (MACD_add mformula round6 candles new_candles m))
      = macd_data m @ [Some (snd (last a))]"
    using all by simp
  show "histogram (state_of (MACD_add mformula round6 candles new_candles m))
      = histogram m @ [Some (snd (last h))]"
    using all by simp
  show "signalma (state_of (MACD_add mformula round6 candles new_candles m))
      = signalma m @ [Some (snd (last g))]"
    using all by simp
  show "MACD.emitted (state_of (MACD_add mformula round6 candles new_candles m))
      = MACD.emitted m @ [sig_add_candle]"
    using all by simp
qed

theorem append_merge_witness:
  "RSI.first_gen example_ready \<and> \<not> RSI.is_genering example_ready \<and>
   RSI.pending example_ready = [] \<and> [candle_at 14] \<noteq> [] \<and>
   last (example_table @ [candle_at 14]) = last [candle_at 14] \<and>
   calculate warmup_formula id
     (candles_get_df (example_table @ [candle_at 14]) (Some (RSI.length_p example_ready * 5)))
     (RSI.source example_ready) (RSI.length_p example_ready) (RSI.mamode example_ready)
     (RSI.drift example_ready) (RSI.offset example_ready)
     = Inr [(Some 12, Some 12), (Some 13, Some 13), (Some 14, Some 14)] \<and>
   RSI.xdata example_ready = [Some 12, Some 13] \<and>
   RSI.xdata (process warmup_formula id (example_table @ [candle_at 14])
      (Append [candle_at 14]) example_ready) = [Some 12, Some 13, Some 14] \<and>
   MACD.first_gen example_macd_ready \<and> \<not> MACD.is_genering example_macd_ready \<and>
   add_update_calculate warmup_macd_formula id example_macd_ready
     (candles_get_df (example_table @ [candle_at 14])
        (Some (slow_period example_macd_ready * 5)))
     = Inr ([(2, 12), (3, 13), (4, 14)], [(3, 13), (4, 14)], [(3, 13), (4, 14)]) \<and>
   MACD.xdata example_macd_ready = [Some 13] \<and>
   MACD.xdata (state_of (MACD_add warmup_macd_formula id (example_table @ [candle_at 14])
      [candle_at 14] example_macd_ready)) = [Some 13, Some 14]"
proof -
  have rsi_hyp:
    "RSI.first_gen example_ready \<and> \<not> RSI.is_genering example_ready \<and>
     RSI.pending example_ready = [] \<and> [candle_at 14] \<noteq> [] \<and>
     last (example_table @ [candle_at 14]) = last [candle_at 14] \<and>
     calculate warmup_formula id
       (candles_get_df (example_table @ [candle_at 14])
          (Some (RSI.length_p example_ready * 5)))
       (RSI.source example_ready) (RSI.length_p example_ready) (RSI.mamode example_ready)
       (RSI.drift example_ready) (RSI.offset example_ready)
       = Inr [(Some 12, Some 12), (Some 13, Some 13), (Some 14, Some 14)] \<and>
     [(Some 12, Some 12), (Some 13, Some 13), (Some (14 :: int), Some (14 :: int))] \<noteq> []"
    by code_simp
  have macd_hyp:
    "MACD.first_gen example_macd_ready \<and> \<not> MACD.is_genering example_macd_ready \<and>
     [candle_at 14] \<noteq> [] \<and>
     add_update_calculate warmup_macd_formula id example_macd_ready
       (candles_get_df (example_table @ [candle_at 14])
          (Some (slow_period example_macd_ready * 5)))
       = Inr ([(2, 12), (3, 13), (4, 14)], [(3, 13), (4, 14)], [(3, 13), (4, 14)]) \<and>
     [(2 :: nat, 12 :: int), (3, 13), (4, 14)] \<noteq> [] \<and>
     [(3 :: nat, 13 :: int), (4, 14)] \<noteq> [] \<and> [(3 :: nat, 13 :: int), (4, 14)] \<noteq> []"
    by code_simp
  have before: "RSI.xdata example_ready = [Some 12, Some 13]"
    "MACD.xdata example_macd_ready = [Some 13]"
    by code_simp+
  have idx: "index (last [candle_at 14]) = 14"
    by (simp add: candle_at_def)
  note inst = append_merge [of example_ready "[candle_at 14]" "example_table @ [candle_at 14]"
      warmup_formula id "[(Some 12, Some 12), (Some 13, Some 13), (Some 14, Some 14)]"
      example_macd_ready warmup_macd_formula
      "[(2, 12), (3, 13), (4, 14)]" "[(3, 13), (4, 14)]" "[(3, 13), (4, 14)]"]
  have after_rsi: "RSI.xdata (process warmup_formula id (example_table @ [candle_at 14])
      (Append [candle_at 14]) example_ready) = [Some 12, Some 13, Some 14]"
    using inst rsi_hyp before idx by simp
  have after_macd: "MACD.xdata (state_of (MACD_add warmup_macd_formula id
      (example_table @ [candle_at 14]) [candle_at 14] example_macd_ready)) = [Some 13, Some 14]"
    using inst macd_hyp before idx by simp
  show ?thesis
    using rsi_hyp macd_hyp before after_rsi after_macd by simp
qed

section \<open>The generating guard and the jobs in flight\<close>

text \<open>
  C1, as stated, fails: a ready engine with no job outstanding receives two append events
  in a row; each starts a trailing-window job, and both are outstanding at once.
\<close>

theorem single_flight_counterexample:
  "RSI.first_gen example_ready \<and> \<not> RSI.is_genering example_ready \<and>
   RSI.pending example_ready = [] \<and>
   length (RSI.pending (state_of (add example_table_14 [candle_at 14] example_ready))) = 1 \<and>
   \<not> RSI.is_genering (state_of (add example_table_14 [candle_at 14] example_ready)) \<and>
   length (RSI.pending (state_of (add example_table_14 [candle_at 14]
      (state_of (add example_table_14 [candle_at 14] example_ready))))) = 2"
  by code_simp

text \<open>
  C1, amended. An append or mutate-last event that arrives while the engine is generating
  (\<^verbatim>\<open>is_genering\<close> is set, or no full generation has completed yet) starts no job and
  changes nothing but \<^verbatim>\<open>is_current_update\<close>: the event is dropped. A full regeneration and
  a historic load each raise \<^verbatim>\<open>is_genering\<close> and start one job, whatever the state. An
  append or mutate-last event that arrives while the engine is ready starts one
  trailing-window job and does not raise \<^verbatim>\<open>is_genering\<close>, whether or not earlier jobs
  are still outstanding.
\<close>

theorem generating_guard:
  "(new_candles \<noteq> [] \<and> (RSI.is_genering s \<or> \<not> RSI.first_gen s) \<longrightarrow>
      add candles new_candles s = Returned (s\<lparr>RSI.is_current_update := False\<rparr>) \<and>
      update candles new_candles s = Returned (s\<lparr>RSI.is_current_update := False\<rparr>)) \<and>
   (new_candles \<noteq> [] \<and> RSI.first_gen s \<and> \<not> RSI.is_genering s \<longrightarrow>
      returned (add candles new_candles s) \<and>
      length (RSI.pending (state_of (add candles new_candles s)))
        = length (RSI.pending s) + 1 \<and>
      \<not> RSI.is_genering (state_of (add candles new_candles s)) \<and>
      returned (update candles new_candles s) \<and>
      length (RSI.pending (state_of (update candles new_candles s)))
        = length (RSI.pending s) + 1 \<and>
      \<not> RSI.is_genering (state_of (update candles new_candles s))) \<and>
   length (RSI.pending (fisrt_gen_data candles s)) = length (RSI.pending s) + 1 \<and>
   RSI.is_genering (fisrt_gen_data candles s) \<and>
   length (RSI.pending (add_historic candles n s)) = length (RSI.pending s) + 1 \<and>
   RSI.is_genering (add_historic candles n s)"
  by (auto simp: add_def update_def fisrt_gen_data_def add_historic_def process_start_def Let_def)

theorem generating_guard_witness:
  "[candle_at 14] \<noteq> [] \<and> RSI.is_genering example_rsi \<and>
   add example_table_14 [candle_at 14] example_rsi
     = Returned (example_rsi\<lparr>RSI.is_current_update := False\<rparr>) \<and>
   RSI.pending (example_rsi\<lparr>RSI.is_current_update := False\<rparr>) = [] \<and>
   RSI.first_gen example_ready \<and> \<not> RSI.is_genering example_ready \<and>
   length (RSI.pending (state_of (update example_table_14 [candle_at 14] example_ready)))
     = length (RSI.pending example_ready) + 1"
proof -
  have dropped: "[candle_at 14] \<noteq> [] \<and> RSI.is_genering example_rsi"
    by code_simp
  have ready: "RSI.first_gen example_ready \<and> \<not> RSI.is_genering example_ready"
    by code_simp
  have none: "RSI.pending (example_rsi\<lparr>RSI.is_current_update := False\<rparr>) = []"
    by code_simp
  show ?thesis
    using generating_guard [of "[candle_at 14]" example_rsi example_table_14]
      generating_guard [of "[candle_at 14]" example_ready example_table_14]
      dropped ready none
    by simp
qed

text \<open>
  C9, as stated, fails: \<^verbatim>\<open>callback_add\<close> does not compare the index it appends with the
  last index held. A ready engine that processes two append events for the same upstream
  row (the candle table is the same at both) ends with two rows of that index.
\<close>

theorem append_duplicate_counterexample:
  "RSI.xdata example_ready = [Some 12, Some 13] \<and>
   RSI.xdata (process warmup_formula id example_table_14 (Append [candle_at 14]) example_ready)
     = [Some 12, Some 13, Some 14] \<and>
   RSI.xdata (run warmup_formula id
      [(example_table_14, Append [candle_at 14]), (example_table_14, Append [candle_at 14])]
      example_ready)
     = [Some 12, Some 13, Some 14, Some 14] \<and>
   RSI.emitted (run warmup_formula id
      [(example_table_14, Append [candle_at 14]), (example_table_14, Append [candle_at 14])]
      example_ready)
     = [sig_reset_all, sig_add_candle, sig_add_candle]"
  by code_simp

text \<open>
  C9, amended. Every completed append job whose frame is non-empty appends the final row
  of the frame, whether or not its index equals the last index held: after two such jobs
  the index array is the old one followed by the two final indices, so two append events
  for the same upstream row give two rows with the same index.
\<close>

theorem callback_add_twice:
  "frame1 \<noteq> [] \<and> frame2 \<noteq> [] \<longrightarrow>
     returned (callback_add (Inr frame1) s) \<and>
     returned (callback_add (Inr frame2) (state_of (callback_add (Inr frame1) s))) \<and>
     RSI.xdata (state_of (callback_add (Inr frame2) (state_of (callback_add (Inr frame1) s))))
       = RSI.xdata s @ [fst (last frame1), fst (last frame2)] \<and>
     RSI.data (state_of (callback_add (Inr frame2) (state_of (callback_add (Inr frame1) s))))
       = RSI.data s @ [snd (last frame1), snd (last frame2)] \<and>
     RSI.emitted (state_of (callback_add (Inr frame2) (state_of (callback_add (Inr frame1) s))))
       = RSI.emitted s @ [sig_add_candle, sig_add_candle]"
  by (simp add: callback_add_def emit_def Let_def)

theorem callback_add_twice_witness:
  "[(Some 14, Some (14 :: int))] \<noteq> [] \<and>
   RSI.xdata (state_of (callback_add (Inr [(Some 14, Some 14)])
      (state_of (callback_add (Inr [(Some 14, Some 14)]) example_ready))))
     = RSI.xdata example_ready @ [Some 14, Some 14]"
  using callback_add_twice [of "[(Some 14, Some 14)]" "[(Some 14, Some 14)]" example_ready]
  by simp

section \<open>Too little data\<close>





lemma invoke_failed: "invoke c (Inl e) s = Raised e s"
  by (cases c) (simp_all add: invoke_def callback_first_gen_def callback_gen_historic_data_def
      callback_add_def callback_update_def)




section \<open>Channel length parity\<close>

lemma MACD_callback_first_gen_parity:
  "MACD_parity s \<Longrightarrow> MACD_parity (state_of (MACD_callback_first_gen future s))"
  by (simp add: MACD_callback_first_gen_def MACD_emit_def MACD_parity_def Let_def
      split: sum.split)

lemma MACD_callback_gen_historic_data_parity:
  "MACD_parity s \<Longrightarrow> MACD_parity (state_of (MACD_callback_gen_historic_data future s))"
  by (simp add: MACD_callback_gen_historic_data_def MACD_emit_def MACD_parity_def Let_def
      split: sum.split)

lemma MACD_parity_pending [simp]:
  "MACD_parity (s\<lparr>MACD.pending := p\<rparr>) = MACD_parity s"
  by (simp add: MACD_parity_def)

lemma MACD_complete_parity:
  "MACD_parity s \<Longrightarrow> MACD_parity (state_of (MACD_complete formula round6 job s))"
  by (cases job)
    (simp add: Let_def MACD_callback_first_gen_parity MACD_callback_gen_historic_data_parity)

lemma MACD_add_parity:
  "MACD_parity s \<Longrightarrow> MACD_parity (state_of (MACD_add formula round6 candles new_candles s))"
  by (simp add: MACD_add_def MACD_emit_def MACD_parity_def Let_def
      split: sum.split prod.split)

lemma MACD_update_parity:
  "MACD_parity s \<Longrightarrow> MACD_parity (state_of (MACD_update formula round6 candles new_candles s))"
  by (auto simp: MACD_update_def MACD_emit_def MACD_parity_def Let_def length_set_last
      split: sum.split prod.split)

lemma MACD_handlers_parity:
  "MACD_parity (MACD_fisrt_gen_data candles s) = MACD_parity s"
  "MACD_parity (MACD_add_historic candles n s) = MACD_parity s"
  by (simp_all add: MACD_fisrt_gen_data_def MACD_add_historic_def MACD_process_start_def
      MACD_parity_def Let_def)

lemma MACD_perform_parity:
  "MACD_parity s \<Longrightarrow> MACD_parity (MACD_perform formula round6 candles st s)"
proof (cases st)
  case (Event ev)
  assume "MACD_parity s"
  then show ?thesis
    using Event
    by (cases ev)
      (simp_all add: MACD_add_parity MACD_update_parity MACD_handlers_parity)
next
  case (Completion job)
  assume "MACD_parity s"
  then show ?thesis using Completion by (simp add: MACD_complete_parity)
qed

lemma MACD_steps_parity:
  "MACD_parity m \<Longrightarrow>
   MACD_parity (fold (\<lambda>(candles, st). MACD_perform formula round6 candles st) steps m)"
  by (induction steps arbitrary: m) (auto simp: MACD_perform_parity)

lemma parity_pending [simp]: "parity (s\<lparr>RSI.pending := p\<rparr>) = parity s"
  by (simp add: parity_def)

lemma invoke_parity: "parity s \<Longrightarrow> parity (state_of (invoke c future s))"
  by (cases c)
    (auto simp: invoke_def callback_first_gen_def callback_gen_historic_data_def
      callback_add_def callback_update_def emit_def parity_def Let_def length_set_last
      split: sum.split)

lemma complete_parity: "parity s \<Longrightarrow> parity (state_of (complete formula round6 job s))"
  by (cases job) (simp add: invoke_parity)

lemma handle_parity: "parity s \<Longrightarrow> parity (state_of (handle candles ev s))"
  by (cases ev)
    (auto simp: fisrt_gen_data_def add_historic_def add_def update_def process_start_def
      parity_def Let_def)

lemma steps_parity:
  "parity s \<Longrightarrow> parity (fold (\<lambda>(candles, st). perform formula round6 candles st) steps s)"
proof (induction steps arbitrary: s)
  case Nil
  then show ?case by simp
next
  case (Cons a steps)
  obtain candles st where a: "a = (candles, st)" by (cases a)
  have "parity (perform formula round6 candles st s)"
    using Cons.prems by (cases st) (simp_all add: handle_parity complete_parity)
  then show ?case using Cons.IH a by simp
qed

text \<open>
  C7. Channel length parity: a freshly constructed engine has all its channel arrays as
  long as its index array, and every step of the engine (the handler of a reset, append,
  mutate-last or historic-prepend event, and the completion of any job, in any order and
  also when the step raises) keeps them so. This holds for the three-channel MACD engine
  (macd, histogram and signal) and for the one-channel RSI engine.
\<close>

theorem channel_length_parity:
  "MACD_parity (MACD_init src slow fast sg mam drift_param) \<and>
   (MACD_parity m \<longrightarrow>
      MACD_parity (fold (\<lambda>(candles, st). MACD_perform mformula round6 candles st) msteps m)) \<and>
   parity (RSI_init src len mam drift_param) \<and>
   (parity s \<longrightarrow>
      parity (fold (\<lambda>(candles, st). perform formula round6 candles st) steps s))"
proof (intro conjI impI)
  show "MACD_parity (MACD_init src slow fast sg mam drift_param)"
    by (simp add: MACD_parity_def MACD_init_def)
  show "parity (RSI_init src len mam drift_param)"
    by (simp add: parity_def RSI_init_def)
next
  assume "MACD_parity m"
  then show
    "MACD_parity (fold (\<lambda>(candles, st). MACD_perform mformula round6 candles st) msteps m)"
    by (rule MACD_steps_parity)
next
  assume "parity s"
  then show "parity (fold (\<lambda>(candles, st). perform formula round6 candles st) steps s)"
    by (rule steps_parity)
qed

theorem channel_length_parity_witness:
  "MACD_parity example_macd \<and>
   MACD.xdata (fold (\<lambda>(candles, st). MACD_perform warmup_macd_formula id candles st)
      [(example_table, Event Reset),
       (example_table,
        Completion (MACD_HeavyProcess callback_first_gen_cb example_table ''close'' 2 3 2
          ''ema'' 0)),
       (example_table_14, Event (Append [candle_at 14]))] example_macd)
     = [Some 13, Some 14] \<and>
   MACD_parity (fold (\<lambda>(candles, st). MACD_perform warmup_macd_formula id candles st)
      [(example_table, Event Reset),
       (example_table,
        Completion (MACD_HeavyProcess callback_first_gen_cb example_table ''close'' 2 3 2
          ''ema'' 0)),
       (example_table_14, Event (Append [candle_at 14]))] example_macd) \<and>
   parity example_rsi \<and>
   RSI.xdata (fold (\<lambda>(candles, st). perform warmup_formula id candles st)
      [(example_table, Event Reset),
       (example_table,
        Completion (HeavyProcess callback_first_gen_cb example_table ''close'' 2 ''rma'' 1 0))]
      example_rsi)
     = [Some 12, Some 13] \<and>
   parity (fold (\<lambda>(candles, st). perform warmup_formula id candles st)
      [(example_table, Event Reset),
       (example_table,
        Completion (HeavyProcess callback_first_gen_cb example_table ''close'' 2 ''rma'' 1 0))]
      example_rsi)"
proof -
  have start: "MACD_parity example_macd \<and> parity example_rsi"
    by code_simp
  have arrays:
    "MACD.xdata (fold (\<lambda>(candles, st). MACD_perform warmup_macd_formula id candles st)
      [(example_table, Event Reset),
       (example_table,
        Completion (MACD_HeavyProcess callback_first_gen_cb example_table ''close'' 2 3 2
          ''ema'' 0)),
       (example_table_14, Event (Append [candle_at 14]))] example_macd)
     = [Some 13, Some 14]"
    "RSI.xdata (fold (\<lambda>(candles, st). perform warmup_formula id candles st)
      [(example_table, Event Reset),
       (example_table,
        Completion (HeavyProcess callback_first_gen_cb example_table ''close'' 2 ''rma'' 1 0))]
      example_rsi)
     = [Some 12, Some 13]"
    by code_simp+
  note inst = channel_length_parity [of "''close''" 3 2 2 "''ema''" None example_macd
        warmup_macd_formula id
        "[(example_table, Event Reset),
          (example_table,
           Completion (MACD_HeavyProcess callback_first_gen_cb example_table ''close'' 2 3 2
             ''ema'' 0)),
          (example_table_14, Event (Append [candle_at 14]))]"
        2 example_rsi warmup_formula
        "[(example_table, Event Reset),
          (example_table,
           Completion (HeavyProcess callback_first_gen_cb example_table ''close'' 2 ''rma''
             1 0))]"]
  show ?thesis
    using start arrays inst by blast
qed

section \<open>The order of the index array\<close>

lemma cell_less_trans: "cell_less a b \<Longrightarrow> cell_less b c \<Longrightarrow> cell_less a c"
  by (cases a; cases b; cases c) auto

lemma increasing_Nil [simp]: "strictly_increasing []"
  by (simp add: strictly_increasing_def)

lemma increasing_below_last:
  "strictly_increasing xs \<Longrightarrow> x \<in> set xs \<Longrightarrow> x = last xs \<or> cell_less x (last xs)"
  by (induction xs) (auto simp: strictly_increasing_def)

lemma increasing_above_hd:
  "strictly_increasing xs \<Longrightarrow> x \<in> set xs \<Longrightarrow> x = hd xs \<or> cell_less (hd xs) x"
  by (cases xs) (auto simp: strictly_increasing_def)

lemma increasing_snoc:
  assumes "strictly_increasing xs" "xs = [] \<or> cell_less (last xs) v"
  shows "strictly_increasing (xs @ [v])"
proof -
  have "cell_less x v" if "x \<in> set xs" for x
  proof -
    from that assms(2) have lv: "cell_less (last xs) v" by auto
    from increasing_below_last [OF assms(1) that] show ?thesis
      using lv cell_less_trans by blast
  qed
  then show ?thesis
    using assms(1) by (simp add: strictly_increasing_def sorted_wrt_append)
qed

lemma increasing_butlast: "strictly_increasing xs \<Longrightarrow> strictly_increasing (butlast xs)"
  by (cases xs rule: rev_cases) (auto simp: strictly_increasing_def sorted_wrt_append)

lemma set_last_snoc: "xs \<noteq> [] \<Longrightarrow> set_last xs v = butlast xs @ [v]"
  by (cases xs rule: rev_cases) (auto simp: set_last_def)

lemma increasing_set_last:
  assumes "strictly_increasing xs" "butlast xs = [] \<or> cell_less (last (butlast xs)) v"
  shows "strictly_increasing (set_last xs v)"
proof (cases "xs = []")
  case True
  then show ?thesis by (simp add: set_last_def)
next
  case False
  then show ?thesis
    using increasing_snoc [OF increasing_butlast [OF assms(1)] assms(2)]
    by (simp add: set_last_snoc)
qed

lemma increasing_append:
  assumes "strictly_increasing xs" "strictly_increasing ys"
    "xs = [] \<or> ys = [] \<or> cell_less (last xs) (hd ys)"
  shows "strictly_increasing (xs @ ys)"
proof -
  have "cell_less x y" if "x \<in> set xs" "y \<in> set ys" for x y
  proof -
    from that assms(3) have lh: "cell_less (last xs) (hd ys)" by auto
    from increasing_below_last [OF assms(1) that(1)] increasing_above_hd [OF assms(2) that(2)]
    show ?thesis using lh cell_less_trans by metis
  qed
  then show ?thesis
    using assms(1,2) by (simp add: strictly_increasing_def sorted_wrt_append)
qed

lemma invoke_in_order:
  assumes "strictly_increasing (RSI.xdata s)" "merge_in_order c future s"
  shows "strictly_increasing (RSI.xdata (state_of (invoke c future s)))"
proof (cases future)
  case (Inl e)
  then show ?thesis using assms(1) by (simp add: invoke_failed)
next
  case (Inr frame)
  show ?thesis
  proof (cases c)
    case callback_first_gen_cb
    then show ?thesis
      using assms Inr
      by (simp add: invoke_def callback_first_gen_def emit_def Let_def merge_in_order_def)
  next
    case callback_gen_historic_data_cb
    then have "strictly_increasing (map fst frame @ RSI.xdata s)"
      using assms Inr
      by (intro increasing_append) (auto simp: merge_in_order_def last_map)
    then show ?thesis
      using callback_gen_historic_data_cb Inr
      by (simp add: invoke_def callback_gen_historic_data_def emit_def Let_def)
  next
    case callback_add_cb
    show ?thesis
    proof (cases "frame = []")
      case True
      then show ?thesis
        using assms(1) callback_add_cb Inr by (simp add: invoke_def callback_add_def)
    next
      case False
      then have "strictly_increasing (RSI.xdata s @ [fst (last frame)])"
        using assms callback_add_cb Inr
        by (intro increasing_snoc) (auto simp: merge_in_order_def)
      then show ?thesis
        using False callback_add_cb Inr
        by (simp add: invoke_def callback_add_def emit_def Let_def)
    qed
  next
    case callback_update_cb
    show ?thesis
    proof (cases "frame = []")
      case True
      then show ?thesis
        using assms(1) callback_update_cb Inr by (simp add: invoke_def callback_update_def)
    next
      case False
      then have "strictly_increasing (set_last (RSI.xdata s) (fst (last frame)))"
        using assms callback_update_cb Inr
        by (intro increasing_set_last) (auto simp: merge_in_order_def)
      then show ?thesis
        using False assms(1) callback_update_cb Inr
        by (simp add: invoke_def callback_update_def emit_def Let_def)
    qed
  qed
qed

lemma merge_all_in_order:
  "strictly_increasing (RSI.xdata s) \<Longrightarrow> merges_in_order jobs s \<Longrightarrow>
   strictly_increasing (RSI.xdata (merge_all jobs s))"
proof (induction jobs arbitrary: s)
  case Nil
  then show ?case by (simp add: merge_all_def)
next
  case (Cons job jobs)
  obtain c future where job: "job = (c, future)" by (cases job)
  have "strictly_increasing (RSI.xdata (state_of (invoke c future s)))"
    using Cons.prems job by (simp add: invoke_in_order)
  then have "strictly_increasing (RSI.xdata (merge_all jobs (state_of (invoke c future s))))"
    using Cons.prems job by (intro Cons.IH) simp_all
  then show ?case using job by (simp add: merge_all_def)
qed

section \<open>The calculation on a table: which rows it gives\<close>






section \<open>Events processed to completion, one after the other\<close>





lemma process_dropped:
  "RSI.pending s = [] \<Longrightarrow> RSI.is_genering s \<Longrightarrow>
   process formula round6 table (Append new_candles) s \<in> {s, s\<lparr>RSI.is_current_update := False\<rparr>} \<and>
   process formula round6 table (MutateLast new_candles) s \<in> {s, s\<lparr>RSI.is_current_update := False\<rparr>}"
  by (simp add: process_def complete_all_def add_def update_def Let_def)





























end
